theory Spec2Isabelle
  imports Main "HOL-Library.Word" "HOL-Library.Sublist"
begin

section \<open>The streaming chat-completion use case\<close>

text \<open>
  A shallow embedding of \<^verbatim>\<open>chatservice/internal/usecase/chatcompletionstream/completion.go\<close>:
  the use case \<^verbatim>\<open>Execute\<close> and its helper \<^verbatim>\<open>createNewChat\<close>. The two collaborators of
  the use case (the chat gateway and the OpenAI client) are Go interfaces or foreign
  clients; they are parameters of the model. The package \<^verbatim>\<open>entity\<close> is called by the use
  case and is a parameter too; an instance that follows the specification is given in
  its own section.
\<close>

subsection \<open>Go errors\<close>

text \<open>
  A Go \<^verbatim>\<open>error\<close> is an interface value. The source looks at an error in two ways:
  \<^verbatim>\<open>err.Error()\<close> reads its text, and \<^verbatim>\<open>errors.Is(err, io.EOF)\<close> asks for its identity.
  Both are kept: an error has a kind (what \<^verbatim>\<open>errors.Is\<close> sees) and a text.
  \<^verbatim>\<open>errors.New\<close> makes an error of the kind \<open>ErrorString\<close>; \<open>Custom\<close> stands for any
  error type a collaborator declares.
\<close>

datatype error_kind = IoEOF | ErrorString | Custom string

datatype go_error = GoError (err_kind: error_kind) (Error: string)

definition errors_New :: "string \<Rightarrow> go_error" where
  "errors_New text = GoError ErrorString text"

definition errors_Is_EOF :: "go_error \<Rightarrow> bool" where
  "errors_Is_EOF err = (err_kind err = IoEOF)"

subsection \<open>Entities and data transfer objects\<close>

text \<open>
  \<^verbatim>\<open>float32\<close> values are only copied from field to field, never computed with; they are
  carried as their 32-bit pattern. Go's \<^verbatim>\<open>int\<close> values are likewise only copied and
  compared.

  The type declarations of package \<^verbatim>\<open>entity\<close> are read off the fields the use case
  touches: \<^verbatim>\<open>chat.ID\<close>, \<^verbatim>\<open>chat.UserID\<close>, \<^verbatim>\<open>chat.Config\<close>, \<^verbatim>\<open>chat.Messages\<close>,
  \<^verbatim>\<open>msg.Role\<close>, \<^verbatim>\<open>msg.Content\<close>, \<^verbatim>\<open>chat.Config.Model.Name\<close> and the fields of the
  \<^verbatim>\<open>entity.ChatConfig\<close> literal in \<^verbatim>\<open>createNewChat\<close> together with
  \<^verbatim>\<open>chat.Config.MaxTokens\<close>. A message also carries the token count that the
  specification gives it.
\<close>

type_synonym float32 = "32 word"

record Model =
  Name :: string
  MaxTokens :: int

record Message =
  Role :: string
  Content :: string
  Tokens :: int

record ChatConfig =
  Model :: Model
  Temperature :: float32
  TopP :: float32
  N :: int
  Stop :: "string list"
  MaxTokens :: int
  PresencePenalty :: float32
  FrequencyPenalty :: float32

record Chat =
  ID :: string
  UserID :: string
  Config :: ChatConfig
  Messages :: "Message list"

record ChatCompletionConfigInputDTO =
  Model :: string
  ModelMaxTokens :: int
  Temperature :: float32
  TopP :: float32
  N :: int
  Stop :: "string list"
  MaxTokens :: int
  PresencePenalty :: float32
  FrequencyPenalty :: float32
  InitialSystemMessage :: string

record ChatCompletionInputDTO =
  ChatID :: string
  UserID :: string
  UserMessage :: string
  Config :: ChatCompletionConfigInputDTO

record ChatCompletionOutputDTO =
  ChatID :: string
  UserID :: string
  Content :: string

subsection \<open>The OpenAI client\<close>

text \<open>
  Of \<^verbatim>\<open>openai.ChatCompletionRequest\<close> the model keeps the fields the source sets and the
  field \<^verbatim>\<open>N\<close>, which the library declares and the source leaves at Go's zero value.
  A stream response is its list of choices, each given by its \<^verbatim>\<open>Delta.Content\<close>.
  A stream is the sequence of what successive calls of \<^verbatim>\<open>Recv\<close> return.
\<close>

record ChatCompletionMessage =
  Role :: string
  Content :: string

record ChatCompletionRequest =
  Model :: string
  Messages :: "ChatCompletionMessage list"
  MaxTokens :: int
  Temperature :: float32
  TopP :: float32
  N :: int
  PresencePenalty :: float32
  FrequencyPenalty :: float32
  Stop :: "string list"
  Stream :: bool

record ChatCompletionStreamResponse =
  Choices :: "string list"

type_synonym recv_result = "go_error + ChatCompletionStreamResponse"

type_synonym ChatCompletionStream = "nat \<Rightarrow> recv_result"

subsection \<open>Collaborators\<close>

text \<open>
  \<^verbatim>\<open>gateway.ChatGateway\<close> is an interface; \<open>None\<close> is Go's \<^verbatim>\<open>nil\<close> error.
  The context argument is only handed on to the collaborators and is left out.
\<close>

record ChatGateway =
  FindChatById :: "string \<Rightarrow> go_error + Chat"
  CreateChat :: "Chat \<Rightarrow> go_error option"
  SaveChat :: "Chat \<Rightarrow> go_error option"

record ChatCompletionUseCase =
  ChatGateway :: ChatGateway
  OpenAiClient :: "ChatCompletionRequest \<Rightarrow> go_error + ChatCompletionStream"

text \<open>
  The functions of package \<^verbatim>\<open>entity\<close> that the use case calls. \<^verbatim>\<open>AddMessage\<close> mutates
  the chat behind a pointer; the model returns the chat after the call.
\<close>

record entity =
  NewModel :: "string \<Rightarrow> int \<Rightarrow> Model"
  NewMessage :: "string \<Rightarrow> string \<Rightarrow> Model \<Rightarrow> go_error + Message"
  NewChat :: "string \<Rightarrow> Message \<Rightarrow> ChatConfig \<Rightarrow> go_error + Chat"
  AddMessage :: "Chat \<Rightarrow> Message \<Rightarrow> go_error + Chat"

subsection \<open>Effects and results\<close>

text \<open>
  What \<^verbatim>\<open>Execute\<close> does to the outside is recorded as a trace, in program order: the
  two writing calls of the gateway, the request handed to the client, and every value
  sent on the channel \<^verbatim>\<open>uc.Stream\<close>. A chat is recorded as it is at the moment of the
  call. The channel send is taken to complete (a reader takes each value).

  \<^verbatim>\<open>Execute\<close> returns an output or an error, or panics when it indexes
  \<^verbatim>\<open>response.Choices[0]\<close> on a response without choices.
\<close>

datatype effect =
    CreateChat_call Chat
  | SaveChat_call Chat
  | CreateChatCompletionStream_call ChatCompletionRequest
  | Stream_send ChatCompletionOutputDTO

datatype failure = Returned go_error | Panic_index_out_of_range

subsection \<open>createNewChat (lines 143 to 163)\<close>

text \<open>
  The \<^verbatim>\<open>entity.ChatConfig\<close> literal names seven fields; \<^verbatim>\<open>MaxTokens\<close> is not among
  them and keeps Go's zero value.
\<close>

definition createNewChat :: "entity \<Rightarrow> ChatCompletionInputDTO \<Rightarrow> go_error + Chat" where
  "createNewChat ent input =
     (let cfg = ChatCompletionInputDTO.Config input;
          model = NewModel ent (ChatCompletionConfigInputDTO.Model cfg)
                    (ChatCompletionConfigInputDTO.ModelMaxTokens cfg);
          chatConfig = \<lparr>ChatConfig.Model = model,
                        ChatConfig.Temperature = ChatCompletionConfigInputDTO.Temperature cfg,
                        ChatConfig.TopP = ChatCompletionConfigInputDTO.TopP cfg,
                        ChatConfig.N = ChatCompletionConfigInputDTO.N cfg,
                        ChatConfig.Stop = ChatCompletionConfigInputDTO.Stop cfg,
                        ChatConfig.MaxTokens = 0,
                        ChatConfig.PresencePenalty = ChatCompletionConfigInputDTO.PresencePenalty cfg,
                        ChatConfig.FrequencyPenalty = ChatCompletionConfigInputDTO.FrequencyPenalty cfg\<rparr>
      in case NewMessage ent ''system'' (ChatCompletionConfigInputDTO.InitialSystemMessage cfg) model of
           Inl err \<Rightarrow> Inl (errors_New (''error create intial message: '' @ Error err))
         | Inr initialMessage \<Rightarrow>
             (case NewChat ent (ChatCompletionInputDTO.UserID input) initialMessage chatConfig of
                Inl err \<Rightarrow> Inl (errors_New (''error create new message: '' @ Error err))
              | Inr chat \<Rightarrow> Inr chat))"

subsection \<open>Execute (lines 55 to 141)\<close>

text \<open>Lines 56 to 72: find the chat, or create and persist a new one.\<close>

definition Execute_load ::
  "entity \<Rightarrow> ChatCompletionUseCase \<Rightarrow> ChatCompletionInputDTO \<Rightarrow> effect list \<times> (go_error + Chat)" where
  "Execute_load ent uc input =
     (case FindChatById (ChatGateway uc) (ChatCompletionInputDTO.ChatID input) of
        Inr chat \<Rightarrow> ([], Inr chat)
      | Inl err \<Rightarrow>
          if Error err = ''Chat not found'' then
            (case createNewChat ent input of
               Inl err \<Rightarrow> ([], Inl (errors_New (''error creating new chat: '' @ Error err)))
             | Inr chat \<Rightarrow>
                 (case CreateChat (ChatGateway uc) chat of
                    Some err \<Rightarrow>
                      ([CreateChat_call chat],
                       Inl (errors_New (''error persisting new chat: '' @ Error err)))
                  | None \<Rightarrow> ([CreateChat_call chat], Inr chat)))
          else ([], Inl (errors_New (''error fetching existing chat '' @ Error err))))"

text \<open>Lines 81 to 100: the request built from the chat.\<close>

definition request_of :: "Chat \<Rightarrow> ChatCompletionRequest" where
  "request_of chat =
     \<lparr>ChatCompletionRequest.Model = Model.Name (ChatConfig.Model (Chat.Config chat)),
      ChatCompletionRequest.Messages =
        map (\<lambda>msg. \<lparr>ChatCompletionMessage.Role = Message.Role msg,
                     ChatCompletionMessage.Content = Message.Content msg\<rparr>) (Chat.Messages chat),
      ChatCompletionRequest.MaxTokens = ChatConfig.MaxTokens (Chat.Config chat),
      ChatCompletionRequest.Temperature = ChatConfig.Temperature (Chat.Config chat),
      ChatCompletionRequest.TopP = ChatConfig.TopP (Chat.Config chat),
      ChatCompletionRequest.N = 0,
      ChatCompletionRequest.PresencePenalty = ChatConfig.PresencePenalty (Chat.Config chat),
      ChatCompletionRequest.FrequencyPenalty = ChatConfig.FrequencyPenalty (Chat.Config chat),
      ChatCompletionRequest.Stop = ChatConfig.Stop (Chat.Config chat),
      ChatCompletionRequest.Stream = True\<rparr>"

text \<open>Lines 73 to 104: append the user message and open the stream.\<close>

definition Execute_request ::
  "entity \<Rightarrow> ChatCompletionUseCase \<Rightarrow> ChatCompletionInputDTO \<Rightarrow> Chat
     \<Rightarrow> effect list \<times> (go_error + Chat \<times> ChatCompletionStream)" where
  "Execute_request ent uc input chat =
     (case NewMessage ent ''user'' (ChatCompletionInputDTO.UserMessage input)
             (ChatConfig.Model (Chat.Config chat)) of
        Inl err \<Rightarrow> ([], Inl (errors_New (''error creating user message: '' @ Error err)))
      | Inr userMessage \<Rightarrow>
          (case AddMessage ent chat userMessage of
             Inl err \<Rightarrow> ([], Inl (errors_New (''error adding new message: '' @ Error err)))
           | Inr chat' \<Rightarrow>
               (case OpenAiClient uc (request_of chat') of
                  Inl err \<Rightarrow>
                    ([CreateChatCompletionStream_call (request_of chat')],
                     Inl (errors_New (''Error create chat completion: '' @ Error err)))
                | Inr resp \<Rightarrow>
                    ([CreateChatCompletionStream_call (request_of chat')], Inr (chat', resp)))))"

text \<open>Lines 56 to 104 together: everything before the receive loop.\<close>

definition Execute_open ::
  "entity \<Rightarrow> ChatCompletionUseCase \<Rightarrow> ChatCompletionInputDTO
     \<Rightarrow> effect list \<times> (go_error + Chat \<times> ChatCompletionStream)" where
  "Execute_open ent uc input =
     (case Execute_load ent uc input of
        (tr1, Inl err) \<Rightarrow> (tr1, Inl err)
      | (tr1, Inr chat) \<Rightarrow>
          (case Execute_request ent uc input chat of (tr2, r) \<Rightarrow> (tr1 @ tr2, r)))"

text \<open>
  Lines 106 to 123: the receive loop. \<open>i\<close> counts the calls of \<^verbatim>\<open>Recv\<close> made so far,
  \<open>fullResponse\<close> is the string builder, \<open>sent\<close> the values sent on the channel so
  far. The loop has no bound of its own: on a stream that never ends or fails it does not
  return, which is the value \<open>None\<close>.
\<close>

partial_function (option) Execute_stream ::
  "Chat \<Rightarrow> ChatCompletionStream \<Rightarrow> nat \<Rightarrow> string \<Rightarrow> ChatCompletionOutputDTO list
     \<Rightarrow> (ChatCompletionOutputDTO list \<times> (failure + string)) option" where
  "Execute_stream chat resp i fullResponse sent =
     (case resp i of
        Inl err \<Rightarrow>
          if errors_Is_EOF err then Some (sent, Inr fullResponse)
          else Some (sent, Inl (Returned (errors_New (''Error stream response: '' @ Error err))))
      | Inr response \<Rightarrow>
          (case Choices response of
             [] \<Rightarrow> Some (sent, Inl Panic_index_out_of_range)
           | c # _ \<Rightarrow>
               Execute_stream chat resp (Suc i) (fullResponse @ c)
                 (sent @ [\<lparr>ChatCompletionOutputDTO.ChatID = Chat.ID chat,
                           ChatCompletionOutputDTO.UserID = Chat.UserID chat,
                           ChatCompletionOutputDTO.Content = fullResponse @ c\<rparr>])))"

text \<open>Lines 124 to 141: append the assistant message, save the chat, build the output.\<close>

definition Execute_finalize ::
  "entity \<Rightarrow> ChatCompletionUseCase \<Rightarrow> Chat \<Rightarrow> string
     \<Rightarrow> effect list \<times> (go_error + ChatCompletionOutputDTO)" where
  "Execute_finalize ent uc chat fullResponse =
     (case NewMessage ent ''assistant'' fullResponse (ChatConfig.Model (Chat.Config chat)) of
        Inl err \<Rightarrow> ([], Inl (errors_New (''Error creating assistant message: '' @ Error err)))
      | Inr assistant \<Rightarrow>
          (case AddMessage ent chat assistant of
             Inl err \<Rightarrow> ([], Inl (errors_New (''Error adding new message: '' @ Error err)))
           | Inr chat' \<Rightarrow>
               (case SaveChat (ChatGateway uc) chat' of
                  Some err \<Rightarrow>
                    ([SaveChat_call chat'], Inl (errors_New (''Error saving chat: '' @ Error err)))
                | None \<Rightarrow>
                    ([SaveChat_call chat'],
                     Inr \<lparr>ChatCompletionOutputDTO.ChatID = Chat.ID chat',
                          ChatCompletionOutputDTO.UserID = Chat.UserID chat',
                          ChatCompletionOutputDTO.Content = fullResponse\<rparr>))))"

text \<open>The whole function: the trace of its effects and what it returns.\<close>

definition Execute ::
  "entity \<Rightarrow> ChatCompletionUseCase \<Rightarrow> ChatCompletionInputDTO
     \<Rightarrow> (effect list \<times> (failure + ChatCompletionOutputDTO)) option" where
  "Execute ent uc input =
     (case Execute_open ent uc input of
        (tr, Inl err) \<Rightarrow> Some (tr, Inl (Returned err))
      | (tr, Inr (chat, resp)) \<Rightarrow>
          (case Execute_stream chat resp 0 [] [] of
             None \<Rightarrow> None
           | Some (sent, Inl f) \<Rightarrow> Some (tr @ map Stream_send sent, Inl f)
           | Some (sent, Inr fullResponse) \<Rightarrow>
               (case Execute_finalize ent uc chat fullResponse of
                  (tr3, Inl err) \<Rightarrow> Some (tr @ map Stream_send sent @ tr3, Inl (Returned err))
                | (tr3, Inr out) \<Rightarrow> Some (tr @ map Stream_send sent @ tr3, Inr out))))"

subsection \<open>Reading a stream and a trace\<close>

text \<open>
  A received value is a delta when it is a response with at least one choice; its text
  is the \<^verbatim>\<open>Delta.Content\<close> of the first choice, the one the loop reads.
\<close>

fun delta_of :: "recv_result \<Rightarrow> string option" where
  "delta_of (Inl err) = None"
| "delta_of (Inr response) = (case Choices response of [] \<Rightarrow> None | c # _ \<Rightarrow> Some c)"

text \<open>
  The snapshots of the chat for the deltas \<open>ds\<close>, when the string builder already holds
  \<open>pre\<close>: one per delta, each with everything accumulated so far.
\<close>

definition snapshots :: "Chat \<Rightarrow> string \<Rightarrow> string list \<Rightarrow> ChatCompletionOutputDTO list" where
  "snapshots chat pre ds =
     map (\<lambda>k. \<lparr>ChatCompletionOutputDTO.ChatID = Chat.ID chat,
                ChatCompletionOutputDTO.UserID = Chat.UserID chat,
                ChatCompletionOutputDTO.Content = pre @ concat (take (Suc k) ds)\<rparr>) [0..<length ds]"

text \<open>What a trace sent on the channel, and its calls that write to the store, in order.\<close>

fun sent_on_Stream :: "effect list \<Rightarrow> ChatCompletionOutputDTO list" where
  "sent_on_Stream [] = []"
| "sent_on_Stream (Stream_send r # es) = r # sent_on_Stream es"
| "sent_on_Stream (e # es) = sent_on_Stream es"

fun store_calls :: "effect list \<Rightarrow> effect list" where
  "store_calls [] = []"
| "store_calls (CreateChat_call c # es) = CreateChat_call c # store_calls es"
| "store_calls (SaveChat_call c # es) = SaveChat_call c # store_calls es"
| "store_calls (e # es) = store_calls es"

section \<open>Package entity and the store, after the specification\<close>

text \<open>
  Modelled from the spec: \<^verbatim>\<open>entity.NewModel\<close>, whose source is not part of the use case
  file. Section 4.1: a pure constructor with no failure mode.
\<close>

definition NewModel_spec :: "string \<Rightarrow> int \<Rightarrow> Model" where
  "NewModel_spec name maxTokens = \<lparr>Model.Name = name, Model.MaxTokens = maxTokens\<rparr>"

text \<open>
  Modelled from the spec: \<^verbatim>\<open>entity.NewMessage\<close>. Section 4.1: it computes the token
  count of the content under the model's tokenizer and fails when the content cannot be
  encoded. The tokenizer is a parameter. The identifier and the timestamp of a message,
  which the use case never reads, are left out.
\<close>

definition NewMessage_spec ::
  "(Model \<Rightarrow> string \<Rightarrow> go_error + int) \<Rightarrow> string \<Rightarrow> string \<Rightarrow> Model \<Rightarrow> go_error + Message" where
  "NewMessage_spec count_tokens role content model =
     (case count_tokens model content of
        Inl err \<Rightarrow> Inl err
      | Inr n \<Rightarrow> Inr \<lparr>Message.Role = role, Message.Content = content, Message.Tokens = n\<rparr>)"

text \<open>
  Modelled from the spec: \<^verbatim>\<open>entity.NewChat\<close>. Section 4.1: it fails with a validation
  error if the initial message is not of role system or if the validation of the config
  fails; section 3: a chat is an identifier, the owning user, the bound config and the
  ordered messages, beginning with the system message. The validation of the config and
  the fresh identifier are parameters.
\<close>

definition NewChat_spec ::
  "(ChatConfig \<Rightarrow> bool) \<Rightarrow> string \<Rightarrow> string \<Rightarrow> Message \<Rightarrow> ChatConfig \<Rightarrow> go_error + Chat" where
  "NewChat_spec valid_config new_id userID initialMessage config =
     (if Message.Role initialMessage \<noteq> ''system'' then
        Inl (GoError (Custom ''ValidationError'') ''initial message is not a system message'')
      else if \<not> valid_config config then
        Inl (GoError (Custom ''ValidationError'') ''invalid chat config'')
      else Inr \<lparr>Chat.ID = new_id, Chat.UserID = userID, Chat.Config = config,
                Chat.Messages = [initialMessage]\<rparr>)"

text \<open>
  Modelled from the spec: \<^verbatim>\<open>Chat.AddMessage\<close>. Section 4.1: it appends the message and
  fails with a budget error if the resulting total token count exceeds the maximum of
  the model.
\<close>

definition AddMessage_spec :: "Chat \<Rightarrow> Message \<Rightarrow> go_error + Chat" where
  "AddMessage_spec chat msg =
     (if Model.MaxTokens (ChatConfig.Model (Chat.Config chat))
           < sum_list (map Message.Tokens (Chat.Messages chat @ [msg])) then
        Inl (GoError (Custom ''BudgetExceededError'') ''token budget exceeded'')
      else Inr (chat\<lparr>Chat.Messages := Chat.Messages chat @ [msg]\<rparr>))"

definition entity_spec ::
  "(Model \<Rightarrow> string \<Rightarrow> go_error + int) \<Rightarrow> (ChatConfig \<Rightarrow> bool) \<Rightarrow> string \<Rightarrow> entity" where
  "entity_spec count_tokens valid_config new_id =
     \<lparr>NewModel = NewModel_spec,
      NewMessage = NewMessage_spec count_tokens,
      NewChat = NewChat_spec valid_config new_id,
      AddMessage = AddMessage_spec\<rparr>"

text \<open>
  Modelled from the spec: the conversation store behind the gateway, whose
  implementation is outside the use case. Section 4.2: \<^verbatim>\<open>CreateChat\<close> and \<^verbatim>\<open>SaveChat\<close>
  are upserts of the chat under its identifier. A call that reports an error is taken to
  leave the store as it was. \<open>persisted\<close> replays the writing calls of a trace.
\<close>

type_synonym store = "string \<rightharpoonup> Chat"

fun store_step :: "ChatGateway \<Rightarrow> store \<Rightarrow> effect \<Rightarrow> store" where
  "store_step gw st (CreateChat_call c) =
     (if CreateChat gw c = None then st(Chat.ID c \<mapsto> c) else st)"
| "store_step gw st (SaveChat_call c) =
     (if SaveChat gw c = None then st(Chat.ID c \<mapsto> c) else st)"
| "store_step gw st e = st"

definition persisted :: "ChatGateway \<Rightarrow> effect list \<Rightarrow> store \<Rightarrow> store" where
  "persisted gw tr st = foldl (store_step gw) st tr"

section \<open>Concrete collaborators\<close>

text \<open>
  Small collaborators on which the theorems below are run: a tokenizer that counts
  characters, a store that is empty, a store that holds one chat, and a client whose
  stream plays a script and reports the end of the stream after it.
\<close>

definition scripted :: "recv_result list \<Rightarrow> ChatCompletionStream" where
  "scripted rs = (\<lambda>i. if i < length rs then rs ! i else Inl (GoError IoEOF ''EOF''))"

definition delta :: "string \<Rightarrow> recv_result" where
  "delta text = Inr \<lparr>Choices = [text]\<rparr>"

definition count_chars :: "Model \<Rightarrow> string \<Rightarrow> go_error + int" where
  "count_chars model content = Inr (int (length content))"

definition demo_entity :: entity where
  "demo_entity = entity_spec count_chars (\<lambda>config. True) ''chat-1''"

definition demo_config :: ChatCompletionConfigInputDTO where
  "demo_config =
     \<lparr>ChatCompletionConfigInputDTO.Model = ''gpt-3.5-turbo'',
      ChatCompletionConfigInputDTO.ModelMaxTokens = 4096,
      ChatCompletionConfigInputDTO.Temperature = 1,
      ChatCompletionConfigInputDTO.TopP = 2,
      ChatCompletionConfigInputDTO.N = 2,
      ChatCompletionConfigInputDTO.Stop = [''END''],
      ChatCompletionConfigInputDTO.MaxTokens = 256,
      ChatCompletionConfigInputDTO.PresencePenalty = 3,
      ChatCompletionConfigInputDTO.FrequencyPenalty = 4,
      ChatCompletionConfigInputDTO.InitialSystemMessage = ''You are a helpful assistant''\<rparr>"

definition demo_input :: ChatCompletionInputDTO where
  "demo_input =
     \<lparr>ChatCompletionInputDTO.ChatID = ''c-42'',
      ChatCompletionInputDTO.UserID = ''u-7'',
      ChatCompletionInputDTO.UserMessage = ''Hello'',
      ChatCompletionInputDTO.Config = demo_config\<rparr>"

definition not_found :: go_error where
  "not_found = GoError (Custom ''NotFoundError'') ''Chat not found''"

definition empty_gateway :: ChatGateway where
  "empty_gateway =
     \<lparr>FindChatById = (\<lambda>id. Inl not_found),
      CreateChat = (\<lambda>chat. None),
      SaveChat = (\<lambda>chat. None)\<rparr>"

definition stored_chat :: Chat where
  "stored_chat =
     \<lparr>Chat.ID = ''c-42'', Chat.UserID = ''u-7'',
      Chat.Config =
        \<lparr>ChatConfig.Model = \<lparr>Model.Name = ''gpt-3.5-turbo'', Model.MaxTokens = 4096\<rparr>,
         ChatConfig.Temperature = 1, ChatConfig.TopP = 2, ChatConfig.N = 1,
         ChatConfig.Stop = [], ChatConfig.MaxTokens = 300,
         ChatConfig.PresencePenalty = 0, ChatConfig.FrequencyPenalty = 0\<rparr>,
      Chat.Messages =
        [\<lparr>Message.Role = ''system'', Message.Content = ''Be brief'', Message.Tokens = 8\<rparr>,
         \<lparr>Message.Role = ''user'', Message.Content = ''Ping'', Message.Tokens = 4\<rparr>,
         \<lparr>Message.Role = ''assistant'', Message.Content = ''Pong'', Message.Tokens = 4\<rparr>]\<rparr>"

definition stored_gateway :: ChatGateway where
  "stored_gateway =
     \<lparr>FindChatById = (\<lambda>id. if id = ''c-42'' then Inr stored_chat else Inl not_found),
      CreateChat = (\<lambda>chat. None),
      SaveChat = (\<lambda>chat. None)\<rparr>"

definition use_case :: "ChatGateway \<Rightarrow> recv_result list \<Rightarrow> ChatCompletionUseCase" where
  "use_case gw rs = \<lparr>ChatGateway = gw, OpenAiClient = (\<lambda>req. Inr (scripted rs))\<rparr>"

definition hi_there :: "recv_result list" where
  "hi_there = [delta ''Hi'', delta '' there'', delta ''!'', Inl (GoError IoEOF ''EOF'')]"

text \<open>
  A store whose lookup always fails with a given error, and the values that the runs on
  these collaborators produce: the chat that \<^verbatim>\<open>createNewChat\<close> builds for \<open>demo_input\<close>,
  the user message, the assistant message for a given content, and a provider error.
\<close>

definition failing_gateway :: "go_error \<Rightarrow> ChatGateway" where
  "failing_gateway err =
     \<lparr>FindChatById = (\<lambda>id. Inl err),
      CreateChat = (\<lambda>chat. None),
      SaveChat = (\<lambda>chat. None)\<rparr>"

definition system_message :: Message where
  "system_message =
     \<lparr>Message.Role = ''system'', Message.Content = ''You are a helpful assistant'',
      Message.Tokens = 27\<rparr>"

definition hello :: Message where
  "hello = \<lparr>Message.Role = ''user'', Message.Content = ''Hello'', Message.Tokens = 5\<rparr>"

definition new_chat :: Chat where
  "new_chat =
     \<lparr>Chat.ID = ''chat-1'', Chat.UserID = ''u-7'',
      Chat.Config =
        \<lparr>ChatConfig.Model = \<lparr>Model.Name = ''gpt-3.5-turbo'', Model.MaxTokens = 4096\<rparr>,
         ChatConfig.Temperature = 1, ChatConfig.TopP = 2, ChatConfig.N = 2,
         ChatConfig.Stop = [''END''], ChatConfig.MaxTokens = 0,
         ChatConfig.PresencePenalty = 3, ChatConfig.FrequencyPenalty = 4\<rparr>,
      Chat.Messages = [system_message]\<rparr>"

definition connection_reset :: go_error where
  "connection_reset = GoError (Custom ''ProviderError'') ''connection reset''"

definition reply :: "string \<Rightarrow> Message" where
  "reply text = \<lparr>Message.Role = ''assistant'', Message.Content = text,
                  Message.Tokens = int (length text)\<rparr>"



section \<open>The receive loop\<close>

text \<open>
  The loop run over a prefix of deltas: each delta extends the string builder and sends
  one snapshot. Then the three ways the loop ends.
\<close>

lemma snapshots_Nil: "snapshots chat pre [] = []"
  by (simp add: snapshots_def)

lemma snapshots_Cons:
  "snapshots chat pre (d # ds) =
     \<lparr>ChatCompletionOutputDTO.ChatID = Chat.ID chat,
      ChatCompletionOutputDTO.UserID = Chat.UserID chat,
      ChatCompletionOutputDTO.Content = pre @ d\<rparr> # snapshots chat (pre @ d) ds"
proof -
  have "[0..<Suc (length ds)] = 0 # map Suc [0..<length ds]"
    by (simp only: upt_conv_Cons [OF zero_less_Suc] map_Suc_upt)
  then show ?thesis
    by (simp add: snapshots_def comp_def del: upt_Suc)
qed

lemma Execute_stream_deltas:
  assumes "\<forall>j<length ds. delta_of (resp (i + j)) = Some (ds ! j)"
  shows "Execute_stream chat resp i full sent =
           Execute_stream chat resp (i + length ds) (full @ concat ds) (sent @ snapshots chat full ds)"
  using assms
proof (induction ds arbitrary: i full sent)
  case Nil
  show ?case by (simp add: snapshots_Nil)
next
  case (Cons d ds)
  from Cons.prems have "delta_of (resp (i + 0)) = Some ((d # ds) ! 0)" by blast
  then have d0: "delta_of (resp i) = Some d" by simp
  have rest: "\<forall>j<length ds. delta_of (resp (Suc i + j)) = Some (ds ! j)"
  proof (intro allI impI)
    fix j assume "j < length ds"
    then have "Suc j < length (d # ds)" by simp
    with Cons.prems have "delta_of (resp (i + Suc j)) = Some ((d # ds) ! Suc j)" by blast
    then show "delta_of (resp (Suc i + j)) = Some (ds ! j)" by simp
  qed
  from d0 have step: "Execute_stream chat resp i full sent =
      Execute_stream chat resp (Suc i) (full @ d)
        (sent @ [\<lparr>ChatCompletionOutputDTO.ChatID = Chat.ID chat,
                  ChatCompletionOutputDTO.UserID = Chat.UserID chat,
                  ChatCompletionOutputDTO.Content = full @ d\<rparr>])"
    by (subst Execute_stream.simps) (auto split: sum.splits list.splits)
  show ?case
    by (simp only: step Cons.IH [OF rest]) (simp add: snapshots_Cons)
qed

lemma Execute_stream_prefix:
  assumes "\<forall>j<length ds. delta_of (resp j) = Some (ds ! j)"
  shows "Execute_stream chat resp 0 [] [] =
           Execute_stream chat resp (length ds) (concat ds) (snapshots chat [] ds)"
  using Execute_stream_deltas [of ds resp 0 chat "[]" "[]"] assms by simp

lemma no_deltas: "\<forall>j<length ([] :: string list). delta_of (resp j) = Some ([] ! j)"
  by simp

lemma Execute_stream_EOF:
  "resp i = Inl err \<Longrightarrow> errors_Is_EOF err \<Longrightarrow>
     Execute_stream chat resp i full sent = Some (sent, Inr full)"
  by (subst Execute_stream.simps) simp

lemma Execute_stream_error:
  "resp i = Inl err \<Longrightarrow> \<not> errors_Is_EOF err \<Longrightarrow>
     Execute_stream chat resp i full sent =
       Some (sent, Inl (Returned (errors_New (''Error stream response: '' @ Error err))))"
  by (subst Execute_stream.simps) simp

lemma Execute_stream_panic:
  "resp i = Inr response \<Longrightarrow> Choices response = [] \<Longrightarrow>
     Execute_stream chat resp i full sent = Some (sent, Inl Panic_index_out_of_range)"
  by (subst Execute_stream.simps) simp

lemma concat_take_prefix: "i \<le> j \<Longrightarrow> prefix (concat (take i ds)) (concat (take j ds))"
proof -
  assume "i \<le> j"
  then have "take j ds = take i ds @ take (j - i) (drop i ds)"
    by (metis le_add_diff_inverse take_add)
  then show ?thesis by simp
qed

section \<open>Traces\<close>

text \<open>
  Only the loop sends on the channel, and nothing before the loop calls \<^verbatim>\<open>SaveChat\<close>. The
  persisted state depends on a trace only through its writing calls.
\<close>

lemma sent_on_Stream_append: "sent_on_Stream (xs @ ys) = sent_on_Stream xs @ sent_on_Stream ys"
  by (induction xs rule: sent_on_Stream.induct) simp_all

lemma sent_on_Stream_sends: "sent_on_Stream (map Stream_send rs) = rs"
  by (induction rs) simp_all

lemma store_calls_append: "store_calls (xs @ ys) = store_calls xs @ store_calls ys"
  by (induction xs rule: store_calls.induct) simp_all

lemma store_calls_sends: "store_calls (map Stream_send rs) = []"
  by (induction rs) simp_all

lemma Execute_load_sends: "sent_on_Stream (fst (Execute_load ent uc input)) = []"
  by (simp add: Execute_load_def split: sum.splits option.splits)

lemma Execute_request_sends: "sent_on_Stream (fst (Execute_request ent uc input chat)) = []"
  by (simp add: Execute_request_def split: sum.splits)

lemma Execute_open_sends: "sent_on_Stream (fst (Execute_open ent uc input)) = []"
  using Execute_load_sends [of ent uc input]
  by (auto simp: Execute_open_def sent_on_Stream_append Execute_request_sends
      split: prod.splits sum.splits
      dest: arg_cong [where f = "\<lambda>p. sent_on_Stream (fst p)"])

lemma Execute_finalize_sends: "sent_on_Stream (fst (Execute_finalize ent uc chat full)) = []"
  by (simp add: Execute_finalize_def split: sum.splits option.splits)

lemma Execute_load_no_save: "SaveChat_call c \<notin> set (fst (Execute_load ent uc input))"
  by (simp add: Execute_load_def split: sum.splits option.splits)

lemma Execute_request_no_save: "SaveChat_call c \<notin> set (fst (Execute_request ent uc input chat))"
  by (simp add: Execute_request_def split: sum.splits)

lemma Execute_open_no_save: "SaveChat_call c \<notin> set (fst (Execute_open ent uc input))"
proof (cases "Execute_load ent uc input")
  case (Pair tr1 r1)
  with Execute_load_no_save [of c ent uc input] have tr1: "SaveChat_call c \<notin> set tr1" by simp
  show ?thesis
  proof (cases r1)
    case (Inl err)
    with Pair tr1 show ?thesis by (simp add: Execute_open_def)
  next
    case (Inr chat0)
    obtain tr2 r2 where req: "Execute_request ent uc input chat0 = (tr2, r2)"
      by (cases "Execute_request ent uc input chat0")
    with Execute_request_no_save [of c ent uc input chat0] have "SaveChat_call c \<notin> set tr2"
      by simp
    with Pair Inr req tr1 show ?thesis by (simp add: Execute_open_def)
  qed
qed

lemma persisted_store_calls: "persisted gw tr st = persisted gw (store_calls tr) st"
  unfolding persisted_def
  by (induction tr arbitrary: st rule: store_calls.induct) simp_all

section \<open>Execute, by the way the stream ends\<close>

lemma Execute_at_EOF:
  assumes "Execute_open ent uc input = (tr, Inr (chat, resp))"
    and "\<forall>j<length ds. delta_of (resp j) = Some (ds ! j)"
    and "resp (length ds) = Inl err" and "errors_Is_EOF err"
  shows "Execute ent uc input =
           Some (tr @ map Stream_send (snapshots chat [] ds)
                   @ fst (Execute_finalize ent uc chat (concat ds)),
                 case snd (Execute_finalize ent uc chat (concat ds)) of
                   Inl e \<Rightarrow> Inl (Returned e) | Inr out \<Rightarrow> Inr out)"
  by (simp add: Execute_def assms(1) Execute_stream_prefix [OF assms(2)]
      Execute_stream_EOF [where resp = resp and i = "length ds", OF assms(3,4)] split: prod.splits sum.splits)

lemma Execute_at_error:
  assumes "Execute_open ent uc input = (tr, Inr (chat, resp))"
    and "\<forall>j<length ds. delta_of (resp j) = Some (ds ! j)"
    and "resp (length ds) = Inl err" and "\<not> errors_Is_EOF err"
  shows "Execute ent uc input =
           Some (tr @ map Stream_send (snapshots chat [] ds),
                 Inl (Returned (errors_New (''Error stream response: '' @ Error err))))"
  by (simp add: Execute_def assms(1) Execute_stream_prefix [OF assms(2)]
      Execute_stream_error [where resp = resp and i = "length ds", OF assms(3,4)])

lemma Execute_at_panic:
  assumes "Execute_open ent uc input = (tr, Inr (chat, resp))"
    and "\<forall>j<length ds. delta_of (resp j) = Some (ds ! j)"
    and "resp (length ds) = Inr response" and "Choices response = []"
  shows "Execute ent uc input =
           Some (tr @ map Stream_send (snapshots chat [] ds), Inl Panic_index_out_of_range)"
  by (simp add: Execute_def assms(1) Execute_stream_prefix [OF assms(2)]
      Execute_stream_panic [where resp = resp and i = "length ds", OF assms(3,4)])

lemma Execute_sends_snapshots:
  assumes "Execute_open ent uc input = (tr0, Inr (chat, resp))"
    and "\<forall>j<length ds. delta_of (resp j) = Some (ds ! j)"
    and "delta_of (resp (length ds)) = None"
  shows "\<exists>tr r. Execute ent uc input = Some (tr, r) \<and> sent_on_Stream tr = snapshots chat [] ds"
proof -
  from Execute_open_sends [of ent uc input] assms(1) have tr0: "sent_on_Stream tr0 = []" by simp
  show ?thesis
  proof (cases "resp (length ds)")
    case (Inl err)
    show ?thesis
    proof (cases "errors_Is_EOF err")
      case True
      show ?thesis
        by (simp add: Execute_at_EOF [OF assms(1,2) Inl True] sent_on_Stream_append
            sent_on_Stream_sends tr0 Execute_finalize_sends)
    next
      case False
      show ?thesis
        by (simp add: Execute_at_error [OF assms(1,2) Inl False] sent_on_Stream_append
            sent_on_Stream_sends tr0)
    qed
  next
    case (Inr response)
    with assms(3) have "Choices response = []" by (simp split: list.splits)
    from Execute_at_panic [OF assms(1,2) Inr this] show ?thesis
      by (simp add: sent_on_Stream_append sent_on_Stream_sends tr0)
  qed
qed

section \<open>What a step that succeeded has done\<close>

lemma Execute_load_found:
  "FindChatById (ChatGateway uc) (ChatCompletionInputDTO.ChatID input) = Inr chat0 \<Longrightarrow>
     Execute_load ent uc input = ([], Inr chat0)"
  by (simp add: Execute_load_def)

lemma Execute_load_created:
  assumes "FindChatById (ChatGateway uc) (ChatCompletionInputDTO.ChatID input) = Inl err"
    and "Execute_load ent uc input = (tr1, Inr chat0)"
  shows "Error err = ''Chat not found'' \<and> createNewChat ent input = Inr chat0
           \<and> CreateChat (ChatGateway uc) chat0 = None \<and> tr1 = [CreateChat_call chat0]"
  using assms by (auto simp: Execute_load_def split: if_splits sum.splits option.splits)

lemma Execute_request_success:
  assumes "Execute_request ent uc input chat0 = (tr2, Inr (chat, resp))"
  shows "\<exists>usr. NewMessage ent ''user'' (ChatCompletionInputDTO.UserMessage input)
                  (ChatConfig.Model (Chat.Config chat0)) = Inr usr
           \<and> AddMessage ent chat0 usr = Inr chat
           \<and> OpenAiClient uc (request_of chat) = Inr resp
           \<and> tr2 = [CreateChatCompletionStream_call (request_of chat)]"
  using assms by (auto simp: Execute_request_def split: sum.splits)

lemma Execute_open_success:
  assumes "Execute_open ent uc input = (tr0, Inr (chat, resp))"
  shows "\<exists>tr1 chat0 tr2. Execute_load ent uc input = (tr1, Inr chat0)
           \<and> Execute_request ent uc input chat0 = (tr2, Inr (chat, resp))
           \<and> tr0 = tr1 @ tr2"
  using assms by (auto simp: Execute_open_def split: prod.splits sum.splits)

lemma Execute_finalize_success:
  assumes "Execute_finalize ent uc chat full = (tr3, Inr out)"
  shows "\<exists>asst chat'. NewMessage ent ''assistant'' full (ChatConfig.Model (Chat.Config chat)) = Inr asst
           \<and> AddMessage ent chat asst = Inr chat'
           \<and> SaveChat (ChatGateway uc) chat' = None
           \<and> tr3 = [SaveChat_call chat']
           \<and> out = \<lparr>ChatCompletionOutputDTO.ChatID = Chat.ID chat',
                     ChatCompletionOutputDTO.UserID = Chat.UserID chat',
                     ChatCompletionOutputDTO.Content = full\<rparr>"
  using assms by (auto simp: Execute_finalize_def split: sum.splits option.splits)

lemma Execute_success:
  assumes "Execute ent uc input = Some (tr, Inr out)"
  shows "\<exists>tr0 chat resp sent full tr3. Execute_open ent uc input = (tr0, Inr (chat, resp))
           \<and> Execute_stream chat resp 0 [] [] = Some (sent, Inr full)
           \<and> Execute_finalize ent uc chat full = (tr3, Inr out)
           \<and> tr = tr0 @ map Stream_send sent @ tr3"
  using assms by (auto simp: Execute_def split: prod.splits sum.splits option.splits)

lemma Execute_open_found_trace:
  assumes "FindChatById (ChatGateway uc) (ChatCompletionInputDTO.ChatID input) = Inr chat0"
    and "Execute_open ent uc input = (tr0, Inr (chat, resp))"
  shows "tr0 = [CreateChatCompletionStream_call (request_of chat)]"
  using Execute_open_success [OF assms(2)] Execute_load_found [OF assms(1), of ent]
  by (auto dest!: Execute_request_success)

lemma Execute_open_created_trace:
  assumes "FindChatById (ChatGateway uc) (ChatCompletionInputDTO.ChatID input) = Inl err"
    and "Execute_open ent uc input = (tr0, Inr (chat, resp))"
  shows "\<exists>chat0. createNewChat ent input = Inr chat0 \<and> CreateChat (ChatGateway uc) chat0 = None
           \<and> tr0 = [CreateChat_call chat0, CreateChatCompletionStream_call (request_of chat)]"
proof -
  from Execute_open_success [OF assms(2)] obtain tr1 chat0 tr2
    where l: "Execute_load ent uc input = (tr1, Inr chat0)"
      and r: "Execute_request ent uc input chat0 = (tr2, Inr (chat, resp))"
      and t: "tr0 = tr1 @ tr2" by blast
  from Execute_load_created [OF assms(1) l] Execute_request_success [OF r] t
  show ?thesis by auto
qed

lemma Execute_load_kind:
  assumes "FindChatById (ChatGateway uc) (ChatCompletionInputDTO.ChatID input) = Inl err"
  shows "Execute_load ent
           (uc\<lparr>ChatGateway := (ChatGateway uc)\<lparr>FindChatById := (\<lambda>id. Inl (GoError k (Error err)))\<rparr>\<rparr>)
           input = Execute_load ent uc input"
proof -
  let ?uc = "uc\<lparr>ChatGateway := (ChatGateway uc)\<lparr>FindChatById := (\<lambda>id. Inl (GoError k (Error err)))\<rparr>\<rparr>"
  have f: "FindChatById (ChatGateway ?uc) (ChatCompletionInputDTO.ChatID input) = Inl (GoError k (Error err))"
    by simp
  have c: "CreateChat (ChatGateway ?uc) = CreateChat (ChatGateway uc)" by simp
  show ?thesis unfolding Execute_load_def f c assms by simp
qed

lemma createNewChat_ChatID:
  "createNewChat ent (input\<lparr>ChatCompletionInputDTO.ChatID := other\<rparr>) = createNewChat ent input"
proof -
  have u: "ChatCompletionInputDTO.UserID (input\<lparr>ChatCompletionInputDTO.ChatID := other\<rparr>) =
             ChatCompletionInputDTO.UserID input" by simp
  have c: "ChatCompletionInputDTO.Config (input\<lparr>ChatCompletionInputDTO.ChatID := other\<rparr>) =
             ChatCompletionInputDTO.Config input" by simp
  show ?thesis unfolding createNewChat_def u c ..
qed

lemma Execute_request_ChatID:
  "Execute_request ent uc (input\<lparr>ChatCompletionInputDTO.ChatID := other\<rparr>) chat =
     Execute_request ent uc input chat"
  by (simp add: Execute_request_def)

section \<open>A turn with the entity of the specification\<close>

lemma entity_spec_fields:
  "NewMessage (entity_spec count_tokens valid_config new_id) = NewMessage_spec count_tokens"
  "AddMessage (entity_spec count_tokens valid_config new_id) = AddMessage_spec"
  "NewChat (entity_spec count_tokens valid_config new_id) = NewChat_spec valid_config new_id"
  "NewModel (entity_spec count_tokens valid_config new_id) = NewModel_spec"
  by (simp_all add: entity_spec_def)

lemma AddMessage_spec_success:
  "AddMessage_spec chat msg = Inr chat' \<Longrightarrow> chat' = chat\<lparr>Chat.Messages := Chat.Messages chat @ [msg]\<rparr>"
  by (auto simp: AddMessage_spec_def split: if_splits)

lemma NewMessage_spec_success:
  "NewMessage_spec count_tokens role content model = Inr msg \<Longrightarrow>
     Message.Role msg = role \<and> Message.Content msg = content"
  by (auto simp: NewMessage_spec_def split: sum.splits)

lemma NewChat_spec_success:
  "NewChat_spec valid_config new_id userID initialMessage config = Inr chat \<Longrightarrow>
     chat = \<lparr>Chat.ID = new_id, Chat.UserID = userID, Chat.Config = config,
             Chat.Messages = [initialMessage]\<rparr>"
  by (auto simp: NewChat_spec_def split: if_splits)

lemma createNewChat_spec_success:
  assumes "createNewChat (entity_spec count_tokens valid_config new_id) input = Inr chat"
  shows "\<exists>sys. Chat.Messages chat = [sys] \<and> Message.Role sys = ''system''
           \<and> Message.Content sys =
               ChatCompletionConfigInputDTO.InitialSystemMessage (ChatCompletionInputDTO.Config input)"
  using assms
  by (auto simp: createNewChat_def entity_spec_def Let_def split: sum.splits
      dest!: NewChat_spec_success NewMessage_spec_success)

lemma spec_turn:
  assumes load: "Execute_load (entity_spec count_tokens valid_config new_id) uc input = (tr1, Inr chat0)"
    and run: "Execute (entity_spec count_tokens valid_config new_id) uc input = Some (tr, Inr out)"
  shows "\<exists>usr asst. store_calls tr =
             store_calls tr1 @ [SaveChat_call (chat0\<lparr>Chat.Messages := Chat.Messages chat0 @ [usr, asst]\<rparr>)]
           \<and> Message.Role usr = ''user''
           \<and> Message.Content usr = ChatCompletionInputDTO.UserMessage input
           \<and> Message.Role asst = ''assistant''
           \<and> Message.Content asst = ChatCompletionOutputDTO.Content out"
proof -
  let ?ent = "entity_spec count_tokens valid_config new_id"
  from Execute_success [OF run] obtain tr0 chat resp sent full tr3
    where op: "Execute_open ?ent uc input = (tr0, Inr (chat, resp))"
      and fin: "Execute_finalize ?ent uc chat full = (tr3, Inr out)"
      and tr: "tr = tr0 @ map Stream_send sent @ tr3" by blast
  from Execute_open_success [OF op] load obtain tr2
    where req: "Execute_request ?ent uc input chat0 = (tr2, Inr (chat, resp))"
      and tr0: "tr0 = tr1 @ tr2" by auto
  from Execute_request_success [OF req] obtain usr
    where usr: "NewMessage_spec count_tokens ''user'' (ChatCompletionInputDTO.UserMessage input)
                  (ChatConfig.Model (Chat.Config chat0)) = Inr usr"
      and add1: "AddMessage_spec chat0 usr = Inr chat"
      and tr2: "tr2 = [CreateChatCompletionStream_call (request_of chat)]"
    by (auto simp: entity_spec_fields)
  from Execute_finalize_success [OF fin] obtain asst chat'
    where asst: "NewMessage_spec count_tokens ''assistant'' full
                   (ChatConfig.Model (Chat.Config chat)) = Inr asst"
      and add2: "AddMessage_spec chat asst = Inr chat'"
      and tr3: "tr3 = [SaveChat_call chat']"
      and out: "out = \<lparr>ChatCompletionOutputDTO.ChatID = Chat.ID chat',
                     ChatCompletionOutputDTO.UserID = Chat.UserID chat',
                     ChatCompletionOutputDTO.Content = full\<rparr>"
    by (auto simp: entity_spec_fields)
  from AddMessage_spec_success [OF add1] AddMessage_spec_success [OF add2]
  have chat': "chat' = chat0\<lparr>Chat.Messages := Chat.Messages chat0 @ [usr, asst]\<rparr>" by simp
  have "store_calls tr = store_calls tr1 @ [SaveChat_call chat']"
    by (simp add: tr tr0 tr2 tr3 store_calls_append store_calls_sends)
  with chat' NewMessage_spec_success [OF usr] NewMessage_spec_success [OF asst] out
  show ?thesis by auto
qed

section \<open>Runs on the concrete collaborators\<close>

lemmas demo_defs = demo_entity_def entity_spec_def NewModel_spec_def NewMessage_spec_def
  NewChat_spec_def AddMessage_spec_def count_chars_def demo_config_def demo_input_def
  not_found_def empty_gateway_def stored_chat_def stored_gateway_def use_case_def
  createNewChat_def Execute_load_def Execute_request_def Execute_open_def request_of_def
  Execute_finalize_def errors_New_def errors_Is_EOF_def

lemmas fixture_defs = system_message_def hello_def new_chat_def connection_reset_def
  failing_gateway_def

lemma EOF_is_EOF: "errors_Is_EOF (GoError IoEOF ''EOF'')"
  by (simp add: errors_Is_EOF_def)

lemma hi_there_deltas:
  "\<forall>j<length [''Hi'', '' there'', ''!''].
      delta_of (scripted hi_there j) = Some ([''Hi'', '' there'', ''!''] ! j)"
  by (simp add: scripted_def hi_there_def delta_def less_Suc_eq)

lemma hi_there_end: "delta_of (scripted hi_there (length [''Hi'', '' there'', ''!''])) = None"
  by (simp add: scripted_def hi_there_def delta_def)

lemma hi_there_EOF: "scripted hi_there (length [''Hi'', '' there'', ''!'']) = Inl (GoError IoEOF ''EOF'')"
  by (simp add: scripted_def hi_there_def)

lemma new_open:
  "Execute_open demo_entity (use_case empty_gateway rs) demo_input =
     ([CreateChat_call new_chat,
       CreateChatCompletionStream_call
         (request_of (new_chat\<lparr>Chat.Messages := [system_message, hello]\<rparr>))],
      Inr (new_chat\<lparr>Chat.Messages := [system_message, hello]\<rparr>, scripted rs))"
  by (simp add: demo_defs fixture_defs)

lemma stored_open:
  "Execute_open demo_entity (use_case stored_gateway rs) demo_input =
     ([CreateChatCompletionStream_call
         (request_of (stored_chat\<lparr>Chat.Messages := Chat.Messages stored_chat @ [hello]\<rparr>))],
      Inr (stored_chat\<lparr>Chat.Messages := Chat.Messages stored_chat @ [hello]\<rparr>, scripted rs))"
  by (simp add: demo_defs fixture_defs)

lemma new_finalize:
  "Execute_finalize demo_entity (use_case empty_gateway rs)
       (new_chat\<lparr>Chat.Messages := [system_message, hello]\<rparr>) text =
     ([SaveChat_call (new_chat\<lparr>Chat.Messages := [system_message, hello, reply text]\<rparr>)],
      Inr \<lparr>ChatCompletionOutputDTO.ChatID = ''chat-1'', ChatCompletionOutputDTO.UserID = ''u-7'',
           ChatCompletionOutputDTO.Content = text\<rparr>)"
  if "length text \<le> 100"
  using that by (simp add: demo_defs fixture_defs reply_def)

lemma stored_finalize:
  "Execute_finalize demo_entity (use_case stored_gateway rs)
       (stored_chat\<lparr>Chat.Messages := Chat.Messages stored_chat @ [hello]\<rparr>) text =
     ([SaveChat_call (stored_chat\<lparr>Chat.Messages := Chat.Messages stored_chat @ [hello, reply text]\<rparr>)],
      Inr \<lparr>ChatCompletionOutputDTO.ChatID = ''c-42'', ChatCompletionOutputDTO.UserID = ''u-7'',
           ChatCompletionOutputDTO.Content = text\<rparr>)"
  if "length text \<le> 100"
  using that by (simp add: demo_defs fixture_defs reply_def)

lemma new_run_hi_there:
  "Execute demo_entity (use_case empty_gateway hi_there) demo_input =
     Some ([CreateChat_call new_chat,
            CreateChatCompletionStream_call
              (request_of (new_chat\<lparr>Chat.Messages := [system_message, hello]\<rparr>)),
            Stream_send \<lparr>ChatCompletionOutputDTO.ChatID = ''chat-1'',
                         ChatCompletionOutputDTO.UserID = ''u-7'',
                         ChatCompletionOutputDTO.Content = ''Hi''\<rparr>,
            Stream_send \<lparr>ChatCompletionOutputDTO.ChatID = ''chat-1'',
                         ChatCompletionOutputDTO.UserID = ''u-7'',
                         ChatCompletionOutputDTO.Content = ''Hi there''\<rparr>,
            Stream_send \<lparr>ChatCompletionOutputDTO.ChatID = ''chat-1'',
                         ChatCompletionOutputDTO.UserID = ''u-7'',
                         ChatCompletionOutputDTO.Content = ''Hi there!''\<rparr>,
            SaveChat_call (new_chat\<lparr>Chat.Messages := [system_message, hello, reply ''Hi there!'']\<rparr>)],
           Inr \<lparr>ChatCompletionOutputDTO.ChatID = ''chat-1'',
                ChatCompletionOutputDTO.UserID = ''u-7'',
                ChatCompletionOutputDTO.Content = ''Hi there!''\<rparr>)"
proof -
  have "concat [''Hi'', '' there'', ''!''] = ''Hi there!''" by simp
  with new_finalize [of "''Hi there!''" hi_there]
  have "Execute_finalize demo_entity (use_case empty_gateway hi_there)
       (new_chat\<lparr>Chat.Messages := [system_message, hello]\<rparr>) (concat [''Hi'', '' there'', ''!'']) =
     ([SaveChat_call (new_chat\<lparr>Chat.Messages := [system_message, hello, reply ''Hi there!'']\<rparr>)],
      Inr \<lparr>ChatCompletionOutputDTO.ChatID = ''chat-1'', ChatCompletionOutputDTO.UserID = ''u-7'',
           ChatCompletionOutputDTO.Content = ''Hi there!''\<rparr>)" by simp
  with Execute_at_EOF [OF new_open hi_there_deltas hi_there_EOF EOF_is_EOF]
  show ?thesis by (simp add: snapshots_def upt_rec new_chat_def)
qed

lemma stored_run_hi_there:
  "Execute demo_entity (use_case stored_gateway hi_there) demo_input =
     Some ([CreateChatCompletionStream_call
              (request_of (stored_chat\<lparr>Chat.Messages := Chat.Messages stored_chat @ [hello]\<rparr>)),
            Stream_send \<lparr>ChatCompletionOutputDTO.ChatID = ''c-42'',
                         ChatCompletionOutputDTO.UserID = ''u-7'',
                         ChatCompletionOutputDTO.Content = ''Hi''\<rparr>,
            Stream_send \<lparr>ChatCompletionOutputDTO.ChatID = ''c-42'',
                         ChatCompletionOutputDTO.UserID = ''u-7'',
                         ChatCompletionOutputDTO.Content = ''Hi there''\<rparr>,
            Stream_send \<lparr>ChatCompletionOutputDTO.ChatID = ''c-42'',
                         ChatCompletionOutputDTO.UserID = ''u-7'',
                         ChatCompletionOutputDTO.Content = ''Hi there!''\<rparr>,
            SaveChat_call (stored_chat\<lparr>Chat.Messages := Chat.Messages stored_chat @ [hello, reply ''Hi there!'']\<rparr>)],
           Inr \<lparr>ChatCompletionOutputDTO.ChatID = ''c-42'',
                ChatCompletionOutputDTO.UserID = ''u-7'',
                ChatCompletionOutputDTO.Content = ''Hi there!''\<rparr>)"
proof -
  have "concat [''Hi'', '' there'', ''!''] = ''Hi there!''" by simp
  with stored_finalize [of "''Hi there!''" hi_there]
  have "Execute_finalize demo_entity (use_case stored_gateway hi_there)
       (stored_chat\<lparr>Chat.Messages := Chat.Messages stored_chat @ [hello]\<rparr>) (concat [''Hi'', '' there'', ''!'']) =
     ([SaveChat_call (stored_chat\<lparr>Chat.Messages := Chat.Messages stored_chat @ [hello, reply ''Hi there!'']\<rparr>)],
      Inr \<lparr>ChatCompletionOutputDTO.ChatID = ''c-42'', ChatCompletionOutputDTO.UserID = ''u-7'',
           ChatCompletionOutputDTO.Content = ''Hi there!''\<rparr>)" by simp
  with Execute_at_EOF [OF stored_open hi_there_deltas hi_there_EOF EOF_is_EOF]
  show ?thesis by (simp add: snapshots_def upt_rec stored_chat_def)
qed

section \<open>Claims\<close>

text \<open>
  C1. When the stream yields the deltas \<open>ds\<close> and then something that is not a delta
  (the end of the stream, an error, or a response without choices), \<^verbatim>\<open>Execute\<close> returns,
  and what it sent on the channel is exactly one snapshot per delta, in the order of
  arrival, the snapshot of the i-th delta holding the concatenation of the first i delta
  texts; each snapshot's content is a prefix of every later one.
\<close>

theorem C1_snapshots:
  assumes "Execute_open ent uc input = (tr0, Inr (chat, resp))"
    and "\<forall>j<length ds. delta_of (resp j) = Some (ds ! j)"
    and "delta_of (resp (length ds)) = None"
  shows "\<exists>tr r. Execute ent uc input = Some (tr, r)
           \<and> sent_on_Stream tr =
               map (\<lambda>i. \<lparr>ChatCompletionOutputDTO.ChatID = Chat.ID chat,
                          ChatCompletionOutputDTO.UserID = Chat.UserID chat,
                          ChatCompletionOutputDTO.Content = concat (take (Suc i) ds)\<rparr>)
                 [0..<length ds]
           \<and> length (sent_on_Stream tr) = length ds
           \<and> (\<forall>i j. i \<le> j \<and> j < length ds \<longrightarrow>
                 prefix (ChatCompletionOutputDTO.Content (sent_on_Stream tr ! i))
                        (ChatCompletionOutputDTO.Content (sent_on_Stream tr ! j)))"
proof -
  from Execute_sends_snapshots [OF assms] obtain tr r
    where run: "Execute ent uc input = Some (tr, r)"
      and sent: "sent_on_Stream tr = snapshots chat [] ds" by blast
  have "\<forall>i j. i \<le> j \<and> j < length ds \<longrightarrow>
          prefix (ChatCompletionOutputDTO.Content (snapshots chat [] ds ! i))
                 (ChatCompletionOutputDTO.Content (snapshots chat [] ds ! j))"
    by (simp add: snapshots_def concat_take_prefix del: upt_Suc)
  with run sent show ?thesis
    by (simp add: snapshots_def del: upt_Suc)
qed

theorem C1_snapshots_witness:
  "\<exists>tr r. Execute demo_entity (use_case stored_gateway hi_there) demo_input = Some (tr, r)
     \<and> map ChatCompletionOutputDTO.Content (sent_on_Stream tr) = [''Hi'', ''Hi there'', ''Hi there!'']"
proof -
  from C1_snapshots [OF stored_open hi_there_deltas hi_there_end]
  obtain tr r where "Execute demo_entity (use_case stored_gateway hi_there) demo_input = Some (tr, r)"
    and "sent_on_Stream tr =
               map (\<lambda>i. \<lparr>ChatCompletionOutputDTO.ChatID = Chat.ID (stored_chat\<lparr>Chat.Messages := Chat.Messages stored_chat @ [hello]\<rparr>),
                          ChatCompletionOutputDTO.UserID = Chat.UserID (stored_chat\<lparr>Chat.Messages := Chat.Messages stored_chat @ [hello]\<rparr>),
                          ChatCompletionOutputDTO.Content = concat (take (Suc i) [''Hi'', '' there'', ''!''])\<rparr>)
                 [0..<length [''Hi'', '' there'', ''!'']]" by blast
  then show ?thesis by (simp add: upt_rec)
qed

text \<open>
  C2, as stated, fails when the chat did not exist: the turn creates the chat and
  persists it with \<^verbatim>\<open>CreateChat\<close> before the stream is opened. Here the stream fails on
  its second receive; \<^verbatim>\<open>Execute\<close> returns the error after one snapshot and without calling
  \<^verbatim>\<open>SaveChat\<close>, but the store, empty before the turn, now holds the new chat.
\<close>

theorem C2_counterexample:
  "Execute demo_entity (use_case empty_gateway [delta ''Hi'', Inl connection_reset]) demo_input =
     Some ([CreateChat_call new_chat,
            CreateChatCompletionStream_call
              (request_of (new_chat\<lparr>Chat.Messages := [system_message, hello]\<rparr>)),
            Stream_send \<lparr>ChatCompletionOutputDTO.ChatID = ''chat-1'',
                         ChatCompletionOutputDTO.UserID = ''u-7'',
                         ChatCompletionOutputDTO.Content = ''Hi''\<rparr>],
           Inl (Returned (errors_New ''Error stream response: connection reset'')))
   \<and> persisted empty_gateway
        [CreateChat_call new_chat,
         CreateChatCompletionStream_call
           (request_of (new_chat\<lparr>Chat.Messages := [system_message, hello]\<rparr>)),
         Stream_send \<lparr>ChatCompletionOutputDTO.ChatID = ''chat-1'',
                      ChatCompletionOutputDTO.UserID = ''u-7'',
                      ChatCompletionOutputDTO.Content = ''Hi''\<rparr>]
        Map.empty ''chat-1'' = Some new_chat
   \<and> (Map.empty :: store) ''chat-1'' = None"
proof -
  have d: "\<forall>j<length [''Hi'']. delta_of (scripted [delta ''Hi'', Inl connection_reset] j) = Some ([''Hi''] ! j)"
    by (simp add: scripted_def delta_def)
  have e: "scripted [delta ''Hi'', Inl connection_reset] (length [''Hi'']) = Inl connection_reset"
    by (simp add: scripted_def)
  have n: "\<not> errors_Is_EOF connection_reset"
    by (simp add: errors_Is_EOF_def connection_reset_def)
  have "Execute demo_entity (use_case empty_gateway [delta ''Hi'', Inl connection_reset]) demo_input =
      Some ([CreateChat_call new_chat,
            CreateChatCompletionStream_call
              (request_of (new_chat\<lparr>Chat.Messages := [system_message, hello]\<rparr>))]
            @ map Stream_send (snapshots (new_chat\<lparr>Chat.Messages := [system_message, hello]\<rparr>) [] [''Hi'']),
           Inl (Returned (errors_New (''Error stream response: '' @ Error connection_reset))))"
    by (rule Execute_at_error [OF new_open d e n])
  moreover have "persisted empty_gateway
        [CreateChat_call new_chat,
         CreateChatCompletionStream_call
           (request_of (new_chat\<lparr>Chat.Messages := [system_message, hello]\<rparr>)),
         Stream_send \<lparr>ChatCompletionOutputDTO.ChatID = ''chat-1'',
                      ChatCompletionOutputDTO.UserID = ''u-7'',
                      ChatCompletionOutputDTO.Content = ''Hi''\<rparr>]
        Map.empty ''chat-1'' = Some new_chat"
    by (simp add: persisted_def empty_gateway_def new_chat_def)
  ultimately show ?thesis
    by (simp add: snapshots_def new_chat_def connection_reset_def)
qed

text \<open>
  C2, amended. When the stream fails with an error other than the end of the stream after
  the deltas \<open>ds\<close>, \<^verbatim>\<open>Execute\<close> returns an error, the channel has received exactly one
  snapshot per delta, and \<^verbatim>\<open>SaveChat\<close> is not called. If \<^verbatim>\<open>FindChatById\<close> had found the
  chat, the trace is the provider request followed by the snapshots, no call writes to
  the store, and the persisted state is unchanged. If it had not, the trace is the
  \<^verbatim>\<open>CreateChat\<close> of the chat that \<^verbatim>\<open>createNewChat\<close> built, then the provider request, then
  the snapshots: that \<^verbatim>\<open>CreateChat\<close> is the only writing call, it comes before the stream
  is opened, and the store keeps the new chat.
\<close>

theorem C2_stream_error:
  assumes "Execute_open ent uc input = (tr0, Inr (chat, resp))"
    and "\<forall>j<length ds. delta_of (resp j) = Some (ds ! j)"
    and "resp (length ds) = Inl err" and "\<not> errors_Is_EOF err"
  shows "\<exists>tr e. Execute ent uc input = Some (tr, Inl (Returned e))
           \<and> sent_on_Stream tr =
               map (\<lambda>i. \<lparr>ChatCompletionOutputDTO.ChatID = Chat.ID chat,
                          ChatCompletionOutputDTO.UserID = Chat.UserID chat,
                          ChatCompletionOutputDTO.Content = concat (take (Suc i) ds)\<rparr>)
                 [0..<length ds]
           \<and> (\<forall>c. SaveChat_call c \<notin> set tr)
           \<and> (\<forall>chat0 st. FindChatById (ChatGateway uc) (ChatCompletionInputDTO.ChatID input) = Inr chat0
                 \<longrightarrow> tr = CreateChatCompletionStream_call (request_of chat)
                            # map Stream_send (sent_on_Stream tr)
                     \<and> store_calls tr = [] \<and> persisted (ChatGateway uc) tr st = st)
           \<and> (\<forall>e0 st. FindChatById (ChatGateway uc) (ChatCompletionInputDTO.ChatID input) = Inl e0
                 \<longrightarrow> (\<exists>c. createNewChat ent input = Inr c
                        \<and> tr = CreateChat_call c # CreateChatCompletionStream_call (request_of chat)
                               # map Stream_send (sent_on_Stream tr)
                        \<and> store_calls tr = [CreateChat_call c]
                        \<and> persisted (ChatGateway uc) tr st = st(Chat.ID c \<mapsto> c)))"
proof -
  let ?tr = "tr0 @ map Stream_send (snapshots chat [] ds)"
  have run: "Execute ent uc input =
      Some (?tr, Inl (Returned (errors_New (''Error stream response: '' @ Error err))))"
    by (rule Execute_at_error [OF assms])
  from Execute_open_sends [of ent uc input] assms(1) have "sent_on_Stream tr0 = []" by simp
  then have sent: "sent_on_Stream ?tr = snapshots chat [] ds"
    by (simp add: sent_on_Stream_append sent_on_Stream_sends)
  have calls: "store_calls ?tr = store_calls tr0"
    by (simp add: store_calls_append store_calls_sends)
  have found: "?tr = CreateChatCompletionStream_call (request_of chat)
                            # map Stream_send (sent_on_Stream ?tr)
                 \<and> store_calls ?tr = [] \<and> persisted (ChatGateway uc) ?tr st = st"
    if "FindChatById (ChatGateway uc) (ChatCompletionInputDTO.ChatID input) = Inr chat0"
    for chat0 st
  proof -
    from Execute_open_found_trace [OF that assms(1)]
    have tr0: "tr0 = [CreateChatCompletionStream_call (request_of chat)]" .
    with calls have c: "store_calls ?tr = []" by simp
    then have "persisted (ChatGateway uc) ?tr st = st"
      using persisted_store_calls [of "ChatGateway uc" ?tr st] by (simp add: persisted_def)
    moreover have "?tr = CreateChatCompletionStream_call (request_of chat)
                            # map Stream_send (sent_on_Stream ?tr)"
      by (simp only: sent) (simp add: tr0)
    ultimately show ?thesis using c by blast
  qed
  have created: "\<exists>c. createNewChat ent input = Inr c
                        \<and> ?tr = CreateChat_call c # CreateChatCompletionStream_call (request_of chat)
                               # map Stream_send (sent_on_Stream ?tr)
                        \<and> store_calls ?tr = [CreateChat_call c]
                        \<and> persisted (ChatGateway uc) ?tr st = st(Chat.ID c \<mapsto> c)"
    if "FindChatById (ChatGateway uc) (ChatCompletionInputDTO.ChatID input) = Inl e0"
    for e0 st
  proof -
    from Execute_open_created_trace [OF that assms(1)] obtain c
      where c: "createNewChat ent input = Inr c" "CreateChat (ChatGateway uc) c = None"
        "tr0 = [CreateChat_call c, CreateChatCompletionStream_call (request_of chat)]" by blast
    with calls have s: "store_calls ?tr = [CreateChat_call c]" by simp
    from s c(2) have p: "persisted (ChatGateway uc) ?tr st = st(Chat.ID c \<mapsto> c)"
      using persisted_store_calls [of "ChatGateway uc" ?tr st] by (simp add: persisted_def)
    have "?tr = CreateChat_call c # CreateChatCompletionStream_call (request_of chat)
                               # map Stream_send (sent_on_Stream ?tr)"
      by (simp only: sent) (simp add: c(3))
    with s p c(1) show ?thesis by blast
  qed
  have nosave: "SaveChat_call c \<notin> set ?tr" for c
    using Execute_open_no_save [of c ent uc input] assms(1) by auto
  from sent have sent': "sent_on_Stream ?tr =
      map (\<lambda>i. \<lparr>ChatCompletionOutputDTO.ChatID = Chat.ID chat,
                 ChatCompletionOutputDTO.UserID = Chat.UserID chat,
                 ChatCompletionOutputDTO.Content = concat (take (Suc i) ds)\<rparr>) [0..<length ds]"
    by (simp add: snapshots_def del: upt_Suc)
  from run sent' nosave found created show ?thesis
    by blast
qed

theorem C2_stream_error_witness:
  "\<exists>tr e. Execute demo_entity (use_case stored_gateway [delta ''Hi'', Inl connection_reset])
              demo_input = Some (tr, Inl (Returned e))
     \<and> map ChatCompletionOutputDTO.Content (sent_on_Stream tr) = [''Hi'']
     \<and> (\<forall>c. SaveChat_call c \<notin> set tr)
     \<and> tr = CreateChatCompletionStream_call
               (request_of (stored_chat\<lparr>Chat.Messages := Chat.Messages stored_chat @ [hello]\<rparr>))
             # map Stream_send (sent_on_Stream tr)
     \<and> store_calls tr = []
     \<and> persisted stored_gateway tr [''c-42'' \<mapsto> stored_chat] = [''c-42'' \<mapsto> stored_chat]"
proof -
  let ?uc = "use_case stored_gateway [delta ''Hi'', Inl connection_reset]"
  let ?chat = "stored_chat\<lparr>Chat.Messages := Chat.Messages stored_chat @ [hello]\<rparr>"
  have d: "\<forall>j<length [''Hi'']. delta_of (scripted [delta ''Hi'', Inl connection_reset] j) = Some ([''Hi''] ! j)"
    by (simp add: scripted_def delta_def)
  have e: "scripted [delta ''Hi'', Inl connection_reset] (length [''Hi'']) = Inl connection_reset"
    by (simp add: scripted_def)
  have n: "\<not> errors_Is_EOF connection_reset"
    by (simp add: errors_Is_EOF_def connection_reset_def)
  have f: "FindChatById (ChatGateway ?uc) (ChatCompletionInputDTO.ChatID demo_input) = Inr stored_chat"
    by (simp add: use_case_def stored_gateway_def demo_input_def)
  have g: "ChatGateway ?uc = stored_gateway"
    by (simp add: use_case_def)
  from C2_stream_error [OF stored_open d e n] obtain tr e0
    where run: "Execute demo_entity ?uc demo_input = Some (tr, Inl (Returned e0))"
      and sent: "sent_on_Stream tr =
               map (\<lambda>i. \<lparr>ChatCompletionOutputDTO.ChatID = Chat.ID ?chat,
                          ChatCompletionOutputDTO.UserID = Chat.UserID ?chat,
                          ChatCompletionOutputDTO.Content = concat (take (Suc i) [''Hi''])\<rparr>)
                 [0..<length [''Hi'']]"
      and nosave: "\<forall>c. SaveChat_call c \<notin> set tr"
      and found: "\<forall>chat0 st. FindChatById (ChatGateway ?uc) (ChatCompletionInputDTO.ChatID demo_input) = Inr chat0
                 \<longrightarrow> tr = CreateChatCompletionStream_call (request_of ?chat)
                            # map Stream_send (sent_on_Stream tr)
                     \<and> store_calls tr = [] \<and> persisted (ChatGateway ?uc) tr st = st"
    by blast
  from found f have "tr = CreateChatCompletionStream_call (request_of ?chat)
                            # map Stream_send (sent_on_Stream tr)
                     \<and> store_calls tr = []
                     \<and> persisted (ChatGateway ?uc) tr [''c-42'' \<mapsto> stored_chat] = [''c-42'' \<mapsto> stored_chat]"
    by blast
  then have shape: "tr = CreateChatCompletionStream_call (request_of ?chat)
                            # map Stream_send (sent_on_Stream tr)"
    and calls: "store_calls tr = []"
    and same: "persisted stored_gateway tr [''c-42'' \<mapsto> stored_chat] = [''c-42'' \<mapsto> stored_chat]"
    by (simp_all only: g)
  from sent have contents: "map ChatCompletionOutputDTO.Content (sent_on_Stream tr) = [''Hi'']"
    by simp
  show ?thesis
    by (rule exI [of _ tr], rule exI [of _ e0])
      (intro conjI run contents nosave shape calls same)
qed

text \<open>
  C3, as stated, fails: the decision is made on the text of the error. An error of another
  kind than the not-found error whose text is \<^verbatim>\<open>Chat not found\<close> makes \<^verbatim>\<open>Execute\<close> create
  and persist a chat, and a not-found error whose text is spelt differently makes it
  return the fetch error.
\<close>

theorem C3_counterexample:
  "err_kind (GoError (Custom ''StoreError'') ''Chat not found'') \<noteq> err_kind not_found
   \<and> Execute demo_entity
        (use_case (failing_gateway (GoError (Custom ''StoreError'') ''Chat not found'')) [])
        demo_input =
      Some ([CreateChat_call new_chat,
             CreateChatCompletionStream_call
               (request_of (new_chat\<lparr>Chat.Messages := [system_message, hello]\<rparr>)),
             SaveChat_call (new_chat\<lparr>Chat.Messages := [system_message, hello, reply '''']\<rparr>)],
            Inr \<lparr>ChatCompletionOutputDTO.ChatID = ''chat-1'',
                 ChatCompletionOutputDTO.UserID = ''u-7'',
                 ChatCompletionOutputDTO.Content = ''''\<rparr>)
   \<and> Execute demo_entity
        (use_case (failing_gateway (GoError (Custom ''NotFoundError'') ''chat not found'')) [])
        demo_input =
      Some ([], Inl (Returned (errors_New ''error fetching existing chat chat not found'')))"
proof -
  let ?uc = "use_case (failing_gateway (GoError (Custom ''StoreError'') ''Chat not found'')) []"
  have o: "Execute_open demo_entity ?uc demo_input =
     ([CreateChat_call new_chat,
       CreateChatCompletionStream_call
         (request_of (new_chat\<lparr>Chat.Messages := [system_message, hello]\<rparr>))],
      Inr (new_chat\<lparr>Chat.Messages := [system_message, hello]\<rparr>, scripted []))"
    by (simp add: demo_defs fixture_defs)
  have e: "scripted [] (length ([] :: string list)) = Inl (GoError IoEOF ''EOF'')"
    by (simp add: scripted_def)
  have f: "Execute_finalize demo_entity ?uc
       (new_chat\<lparr>Chat.Messages := [system_message, hello]\<rparr>) (concat []) =
     ([SaveChat_call (new_chat\<lparr>Chat.Messages := [system_message, hello, reply '''']\<rparr>)],
      Inr \<lparr>ChatCompletionOutputDTO.ChatID = ''chat-1'', ChatCompletionOutputDTO.UserID = ''u-7'',
           ChatCompletionOutputDTO.Content = ''''\<rparr>)"
    by (simp add: demo_defs fixture_defs reply_def)
  have a: "Execute demo_entity ?uc demo_input =
      Some ([CreateChat_call new_chat,
             CreateChatCompletionStream_call
               (request_of (new_chat\<lparr>Chat.Messages := [system_message, hello]\<rparr>)),
             SaveChat_call (new_chat\<lparr>Chat.Messages := [system_message, hello, reply '''']\<rparr>)],
            Inr \<lparr>ChatCompletionOutputDTO.ChatID = ''chat-1'',
                 ChatCompletionOutputDTO.UserID = ''u-7'',
                 ChatCompletionOutputDTO.Content = ''''\<rparr>)"
    using Execute_at_EOF [OF o no_deltas e EOF_is_EOF] f by (simp add: snapshots_def)
  have b: "Execute demo_entity
        (use_case (failing_gateway (GoError (Custom ''NotFoundError'') ''chat not found'')) [])
        demo_input =
      Some ([], Inl (Returned (errors_New ''error fetching existing chat chat not found'')))"
    by (simp add: Execute_def demo_defs fixture_defs)
  from a b show ?thesis by (simp add: not_found_def)
qed

text \<open>
  C3, amended. \<^verbatim>\<open>Execute\<close> tells the absent chat from other failures of \<^verbatim>\<open>FindChatById\<close>
  by comparing the text of the error with \<^verbatim>\<open>Chat not found\<close>: replacing the kind of the
  error by any other kind changes nothing; with any other text \<^verbatim>\<open>Execute\<close> returns the
  fetch error at once; with exactly that text the chat built by \<^verbatim>\<open>createNewChat\<close> is
  handed to \<^verbatim>\<open>CreateChat\<close>.
\<close>

theorem C3_not_found_by_text:
  assumes "FindChatById (ChatGateway uc) (ChatCompletionInputDTO.ChatID input) = Inl err"
  shows "Execute ent
           (uc\<lparr>ChatGateway := (ChatGateway uc)\<lparr>FindChatById := (\<lambda>id. Inl (GoError k (Error err)))\<rparr>\<rparr>)
           input = Execute ent uc input
       \<and> (Error err \<noteq> ''Chat not found'' \<longrightarrow>
            Execute ent uc input =
              Some ([], Inl (Returned (errors_New (''error fetching existing chat '' @ Error err)))))
       \<and> (\<forall>chat. Error err = ''Chat not found'' \<and> createNewChat ent input = Inr chat \<longrightarrow>
            fst (Execute_load ent uc input) = [CreateChat_call chat])"
proof -
  let ?uc = "uc\<lparr>ChatGateway := (ChatGateway uc)\<lparr>FindChatById := (\<lambda>id. Inl (GoError k (Error err)))\<rparr>\<rparr>"
  have o: "OpenAiClient ?uc = OpenAiClient uc" by simp
  have s: "SaveChat (ChatGateway ?uc) = SaveChat (ChatGateway uc)" by simp
  have "Execute ent ?uc input = Execute ent uc input"
    unfolding Execute_def Execute_open_def Execute_load_kind [OF assms]
      Execute_request_def Execute_finalize_def o s ..
  moreover have "Execute ent uc input =
              Some ([], Inl (Returned (errors_New (''error fetching existing chat '' @ Error err))))"
    if "Error err \<noteq> ''Chat not found''"
    using assms that by (simp add: Execute_def Execute_open_def Execute_load_def)
  moreover have "fst (Execute_load ent uc input) = [CreateChat_call chat]"
    if "Error err = ''Chat not found''" "createNewChat ent input = Inr chat" for chat
    using assms that by (simp add: Execute_load_def split: option.splits)
  ultimately show ?thesis by blast
qed

theorem C3_not_found_by_text_witness:
  "Execute demo_entity
       (use_case (failing_gateway (GoError (Custom ''StoreError'') ''Chat not found'')) hi_there)
       demo_input =
     Execute demo_entity (use_case empty_gateway hi_there) demo_input
   \<and> fst (Execute_load demo_entity (use_case empty_gateway hi_there) demo_input) =
       [CreateChat_call new_chat]"
proof -
  have f: "FindChatById (ChatGateway (use_case empty_gateway hi_there))
             (ChatCompletionInputDTO.ChatID demo_input) = Inl not_found"
    by (simp add: use_case_def empty_gateway_def)
  have u: "(use_case empty_gateway hi_there)
             \<lparr>ChatGateway := (ChatGateway (use_case empty_gateway hi_there))
                \<lparr>FindChatById := (\<lambda>id. Inl (GoError (Custom ''StoreError'') (Error not_found)))\<rparr>\<rparr> =
           use_case (failing_gateway (GoError (Custom ''StoreError'') ''Chat not found'')) hi_there"
    by (simp add: use_case_def empty_gateway_def failing_gateway_def not_found_def)
  have c: "createNewChat demo_entity demo_input = Inr new_chat"
    by (simp add: demo_defs fixture_defs)
  have t: "Error not_found = ''Chat not found''" by (simp add: not_found_def)
  from C3_not_found_by_text [OF f, of demo_entity "Custom ''StoreError''"] u c t
  show ?thesis by simp
qed

text \<open>
  C4, as stated, fails: an error of another kind than the not-found error (here a
  connection error) whose text is \<^verbatim>\<open>Chat not found\<close> does not make \<^verbatim>\<open>Execute\<close> return an
  error. The turn creates a chat, calls \<^verbatim>\<open>CreateChat\<close>, streams, calls \<^verbatim>\<open>SaveChat\<close> and
  succeeds.
\<close>

theorem C4_counterexample:
  "err_kind (GoError (Custom ''ConnectionError'') ''Chat not found'') \<noteq> err_kind not_found
   \<and> Execute demo_entity
        (use_case (failing_gateway (GoError (Custom ''ConnectionError'') ''Chat not found'')) hi_there)
        demo_input =
      Some ([CreateChat_call new_chat,
             CreateChatCompletionStream_call
               (request_of (new_chat\<lparr>Chat.Messages := [system_message, hello]\<rparr>)),
             Stream_send \<lparr>ChatCompletionOutputDTO.ChatID = ''chat-1'',
                          ChatCompletionOutputDTO.UserID = ''u-7'',
                          ChatCompletionOutputDTO.Content = ''Hi''\<rparr>,
             Stream_send \<lparr>ChatCompletionOutputDTO.ChatID = ''chat-1'',
                          ChatCompletionOutputDTO.UserID = ''u-7'',
                          ChatCompletionOutputDTO.Content = ''Hi there''\<rparr>,
             Stream_send \<lparr>ChatCompletionOutputDTO.ChatID = ''chat-1'',
                          ChatCompletionOutputDTO.UserID = ''u-7'',
                          ChatCompletionOutputDTO.Content = ''Hi there!''\<rparr>,
             SaveChat_call (new_chat\<lparr>Chat.Messages := [system_message, hello, reply ''Hi there!'']\<rparr>)],
            Inr \<lparr>ChatCompletionOutputDTO.ChatID = ''chat-1'',
                 ChatCompletionOutputDTO.UserID = ''u-7'',
                 ChatCompletionOutputDTO.Content = ''Hi there!''\<rparr>)"
proof -
  let ?uc = "use_case (failing_gateway (GoError (Custom ''ConnectionError'') ''Chat not found'')) hi_there"
  have o: "Execute_open demo_entity ?uc demo_input =
     ([CreateChat_call new_chat,
       CreateChatCompletionStream_call
         (request_of (new_chat\<lparr>Chat.Messages := [system_message, hello]\<rparr>))],
      Inr (new_chat\<lparr>Chat.Messages := [system_message, hello]\<rparr>, scripted hi_there))"
    by (simp add: demo_defs fixture_defs)
  have f: "Execute_finalize demo_entity ?uc
       (new_chat\<lparr>Chat.Messages := [system_message, hello]\<rparr>) (concat [''Hi'', '' there'', ''!'']) =
     ([SaveChat_call (new_chat\<lparr>Chat.Messages := [system_message, hello, reply ''Hi there!'']\<rparr>)],
      Inr \<lparr>ChatCompletionOutputDTO.ChatID = ''chat-1'', ChatCompletionOutputDTO.UserID = ''u-7'',
           ChatCompletionOutputDTO.Content = ''Hi there!''\<rparr>)"
    by (simp add: demo_defs fixture_defs reply_def)
  from Execute_at_EOF [OF o hi_there_deltas hi_there_EOF EOF_is_EOF] f
  show ?thesis by (simp add: snapshots_def upt_rec new_chat_def not_found_def)
qed

text \<open>
  C4, amended. When \<^verbatim>\<open>FindChatById\<close> fails with an error whose text is not
  \<^verbatim>\<open>Chat not found\<close>, whatever its kind, \<^verbatim>\<open>Execute\<close> returns an error and its trace is
  empty: no \<^verbatim>\<open>CreateChat\<close>, no \<^verbatim>\<open>SaveChat\<close>, no request to the provider, nothing sent.
\<close>

theorem C4_fetch_error:
  assumes "FindChatById (ChatGateway uc) (ChatCompletionInputDTO.ChatID input) = Inl err"
    and "Error err \<noteq> ''Chat not found''"
  shows "Execute ent uc input =
           Some ([], Inl (Returned (errors_New (''error fetching existing chat '' @ Error err))))"
  using assms by (simp add: Execute_def Execute_open_def Execute_load_def)

theorem C4_fetch_error_witness:
  "Execute demo_entity
     (use_case (failing_gateway (GoError (Custom ''StoreError'') ''connection refused'')) hi_there)
     demo_input =
   Some ([], Inl (Returned (errors_New ''error fetching existing chat connection refused'')))"
proof -
  have f: "FindChatById
             (ChatGateway (use_case (failing_gateway (GoError (Custom ''StoreError'') ''connection refused'')) hi_there))
             (ChatCompletionInputDTO.ChatID demo_input) = Inl (GoError (Custom ''StoreError'') ''connection refused'')"
    by (simp add: use_case_def failing_gateway_def)
  have t: "Error (GoError (Custom ''StoreError'') ''connection refused'') \<noteq> ''Chat not found''" by simp
  from C4_fetch_error [OF f t, of demo_entity] show ?thesis by simp
qed

text \<open>
  C5. With package entity as the specification gives it: when \<^verbatim>\<open>FindChatById\<close> reports no
  chat and \<^verbatim>\<open>Execute\<close> succeeds, the calls that write to the store are exactly one
  \<^verbatim>\<open>CreateChat\<close> followed by one \<^verbatim>\<open>SaveChat\<close>. The created chat holds one message, the
  system message made from \<^verbatim>\<open>InitialSystemMessage\<close>; the saved chat holds three: that system
  message, the user message, and the assistant message with the returned content.
\<close>

theorem C5_new_chat_calls:
  assumes "FindChatById (ChatGateway uc) (ChatCompletionInputDTO.ChatID input) = Inl err"
    and "Execute (entity_spec count_tokens valid_config new_id) uc input = Some (tr, Inr out)"
  shows "\<exists>sys usr asst created saved.
           store_calls tr = [CreateChat_call created, SaveChat_call saved]
           \<and> Chat.Messages created = [sys]
           \<and> Chat.Messages saved = [sys, usr, asst]
           \<and> Message.Role sys = ''system''
           \<and> Message.Content sys =
               ChatCompletionConfigInputDTO.InitialSystemMessage (ChatCompletionInputDTO.Config input)
           \<and> Message.Role usr = ''user''
           \<and> Message.Content usr = ChatCompletionInputDTO.UserMessage input
           \<and> Message.Role asst = ''assistant''
           \<and> Message.Content asst = ChatCompletionOutputDTO.Content out"
proof -
  let ?ent = "entity_spec count_tokens valid_config new_id"
  from Execute_success [OF assms(2)] obtain tr0 chat resp
    where "Execute_open ?ent uc input = (tr0, Inr (chat, resp))" by blast
  from Execute_open_success [OF this] obtain tr1 chat0
    where load: "Execute_load ?ent uc input = (tr1, Inr chat0)" by blast
  from Execute_load_created [OF assms(1) load]
  have new: "createNewChat ?ent input = Inr chat0" and tr1: "tr1 = [CreateChat_call chat0]"
    by simp_all
  from createNewChat_spec_success [OF new] obtain sys
    where sys: "Chat.Messages chat0 = [sys]" "Message.Role sys = ''system''"
      "Message.Content sys =
         ChatCompletionConfigInputDTO.InitialSystemMessage (ChatCompletionInputDTO.Config input)"
    by blast
  from spec_turn [OF load assms(2)] obtain usr asst
    where "store_calls tr =
             store_calls tr1 @ [SaveChat_call (chat0\<lparr>Chat.Messages := Chat.Messages chat0 @ [usr, asst]\<rparr>)]"
      and "Message.Role usr = ''user''"
      and "Message.Content usr = ChatCompletionInputDTO.UserMessage input"
      and "Message.Role asst = ''assistant''"
      and "Message.Content asst = ChatCompletionOutputDTO.Content out" by blast
  with sys tr1 show ?thesis by simp
qed

theorem C5_new_chat_calls_witness:
  "\<exists>tr out sys usr asst created saved.
     Execute demo_entity (use_case empty_gateway hi_there) demo_input = Some (tr, Inr out)
     \<and> store_calls tr = [CreateChat_call created, SaveChat_call saved]
     \<and> Chat.Messages created = [sys]
     \<and> Chat.Messages saved = [sys, usr, asst]
     \<and> Message.Role sys = ''system''
     \<and> Message.Content sys = ''You are a helpful assistant''
     \<and> Message.Role usr = ''user''
     \<and> Message.Content usr = ''Hello''
     \<and> Message.Role asst = ''assistant''
     \<and> Message.Content asst = ''Hi there!''"
proof -
  have f: "FindChatById (ChatGateway (use_case empty_gateway hi_there))
             (ChatCompletionInputDTO.ChatID demo_input) = Inl not_found"
    by (simp add: use_case_def empty_gateway_def)
  from C5_new_chat_calls [OF f new_run_hi_there [unfolded demo_entity_def]] new_run_hi_there
  show ?thesis by (simp add: demo_input_def demo_config_def)
qed

text \<open>
  C6. With package entity as the specification gives it: when \<^verbatim>\<open>FindChatById\<close> returns a
  chat and \<^verbatim>\<open>Execute\<close> succeeds, the only call that writes to the store is one \<^verbatim>\<open>SaveChat\<close>,
  and the chat it is given is the chat that was found with two messages appended to its
  messages, the user message and then the assistant message; nothing else of the chat
  differs.
\<close>

theorem C6_append_only:
  assumes "FindChatById (ChatGateway uc) (ChatCompletionInputDTO.ChatID input) = Inr chat0"
    and "Execute (entity_spec count_tokens valid_config new_id) uc input = Some (tr, Inr out)"
  shows "\<exists>usr asst.
           store_calls tr =
             [SaveChat_call (chat0\<lparr>Chat.Messages := Chat.Messages chat0 @ [usr, asst]\<rparr>)]
           \<and> Message.Role usr = ''user''
           \<and> Message.Content usr = ChatCompletionInputDTO.UserMessage input
           \<and> Message.Role asst = ''assistant''
           \<and> Message.Content asst = ChatCompletionOutputDTO.Content out"
  using spec_turn [OF Execute_load_found [OF assms(1)] assms(2)] by simp

theorem C6_append_only_witness:
  "\<exists>tr out usr asst.
     Execute demo_entity (use_case stored_gateway hi_there) demo_input = Some (tr, Inr out)
     \<and> store_calls tr =
         [SaveChat_call (stored_chat\<lparr>Chat.Messages := Chat.Messages stored_chat @ [usr, asst]\<rparr>)]
     \<and> Message.Role usr = ''user''
     \<and> Message.Content usr = ''Hello''
     \<and> Message.Role asst = ''assistant''
     \<and> Message.Content asst = ''Hi there!''"
proof -
  have f: "FindChatById (ChatGateway (use_case stored_gateway hi_there))
             (ChatCompletionInputDTO.ChatID demo_input) = Inr stored_chat"
    by (simp add: use_case_def stored_gateway_def demo_input_def)
  from C6_append_only [OF f stored_run_hi_there [unfolded demo_entity_def]] stored_run_hi_there
  show ?thesis by (simp add: demo_input_def)
qed

text \<open>
  C7 on a concrete new chat. The caller asks for \<^verbatim>\<open>MaxTokens = 256\<close> and \<^verbatim>\<open>N = 2\<close>. The request
  handed to the provider has \<^verbatim>\<open>MaxTokens = 0\<close>, because \<^verbatim>\<open>createNewChat\<close> does not copy
  \<^verbatim>\<open>input.Config.MaxTokens\<close> into the chat's config, and \<^verbatim>\<open>N = 0\<close>, because the request
  literal does not name \<^verbatim>\<open>N\<close>, although the chat's config holds 2.
\<close>

theorem C7_new_chat_request:
  "Execute_open demo_entity (use_case empty_gateway hi_there) demo_input =
     ([CreateChat_call new_chat,
       CreateChatCompletionStream_call
         (request_of (new_chat\<lparr>Chat.Messages := [system_message, hello]\<rparr>))],
      Inr (new_chat\<lparr>Chat.Messages := [system_message, hello]\<rparr>, scripted hi_there))
   \<and> ChatCompletionConfigInputDTO.MaxTokens (ChatCompletionInputDTO.Config demo_input) = 256
   \<and> ChatCompletionRequest.MaxTokens
        (request_of (new_chat\<lparr>Chat.Messages := [system_message, hello]\<rparr>)) = 0
   \<and> ChatCompletionConfigInputDTO.N (ChatCompletionInputDTO.Config demo_input) = 2
   \<and> ChatConfig.N (Chat.Config new_chat) = 2
   \<and> ChatCompletionRequest.N
        (request_of (new_chat\<lparr>Chat.Messages := [system_message, hello]\<rparr>)) = 0"
  by (simp add: new_open) (simp add: demo_input_def demo_config_def request_of_def new_chat_def)

text \<open>
  C8. When the stream yields the deltas \<open>ds\<close> and then its end, and the three steps of
  finalizing succeed, \<^verbatim>\<open>Execute\<close> returns an output and no error. The output carries the
  identifiers of the chat and, as content, the concatenation of all delta texts; one
  snapshot per delta was sent, and when there was at least one delta the content of the
  last snapshot is the content of the output.
\<close>

theorem C8_output_content:
  assumes "Execute_open ent uc input = (tr0, Inr (chat, resp))"
    and "\<forall>j<length ds. delta_of (resp j) = Some (ds ! j)"
    and "resp (length ds) = Inl err" and "errors_Is_EOF err"
    and "NewMessage ent ''assistant'' (concat ds) (ChatConfig.Model (Chat.Config chat)) = Inr asst"
    and "AddMessage ent chat asst = Inr chat'"
    and "SaveChat (ChatGateway uc) chat' = None"
  shows "\<exists>tr. Execute ent uc input =
             Some (tr, Inr \<lparr>ChatCompletionOutputDTO.ChatID = Chat.ID chat',
                            ChatCompletionOutputDTO.UserID = Chat.UserID chat',
                            ChatCompletionOutputDTO.Content = concat ds\<rparr>)
           \<and> length (sent_on_Stream tr) = length ds
           \<and> (ds \<noteq> [] \<longrightarrow>
                 ChatCompletionOutputDTO.Content (last (sent_on_Stream tr)) = concat ds)"
proof -
  have fin: "Execute_finalize ent uc chat (concat ds) =
      ([SaveChat_call chat'],
       Inr \<lparr>ChatCompletionOutputDTO.ChatID = Chat.ID chat',
            ChatCompletionOutputDTO.UserID = Chat.UserID chat',
            ChatCompletionOutputDTO.Content = concat ds\<rparr>)"
    by (simp add: Execute_finalize_def assms(5,6,7))
  let ?tr = "tr0 @ map Stream_send (snapshots chat [] ds) @ [SaveChat_call chat']"
  from Execute_at_EOF [OF assms(1-4)] fin
  have run: "Execute ent uc input =
      Some (?tr, Inr \<lparr>ChatCompletionOutputDTO.ChatID = Chat.ID chat',
                       ChatCompletionOutputDTO.UserID = Chat.UserID chat',
                       ChatCompletionOutputDTO.Content = concat ds\<rparr>)" by simp
  from Execute_open_sends [of ent uc input] assms(1) have "sent_on_Stream tr0 = []" by simp
  then have sent: "sent_on_Stream ?tr = snapshots chat [] ds"
    by (simp add: sent_on_Stream_append sent_on_Stream_sends)
  have len: "length (snapshots chat [] ds) = length ds"
    by (simp add: snapshots_def)
  have "ChatCompletionOutputDTO.Content (last (snapshots chat [] ds)) = concat ds" if "ds \<noteq> []"
  proof -
    from that have "snapshots chat [] ds \<noteq> []" using len by auto
    then have "last (snapshots chat [] ds) = snapshots chat [] ds ! (length ds - 1)"
      by (simp add: last_conv_nth len)
    with that show ?thesis by (simp add: snapshots_def del: upt_Suc)
  qed
  with run sent len show ?thesis by simp
qed

theorem C8_output_content_witness:
  "\<exists>tr. Execute demo_entity (use_case stored_gateway hi_there) demo_input =
          Some (tr, Inr \<lparr>ChatCompletionOutputDTO.ChatID = ''c-42'',
                         ChatCompletionOutputDTO.UserID = ''u-7'',
                         ChatCompletionOutputDTO.Content = ''Hi there!''\<rparr>)
        \<and> length (sent_on_Stream tr) = 3
        \<and> ChatCompletionOutputDTO.Content (last (sent_on_Stream tr)) = ''Hi there!''"
proof -
  have m: "NewMessage demo_entity ''assistant'' (concat [''Hi'', '' there'', ''!''])
             (ChatConfig.Model (Chat.Config (stored_chat\<lparr>Chat.Messages := Chat.Messages stored_chat @ [hello]\<rparr>)))
           = Inr (reply ''Hi there!'')"
    by (simp add: demo_defs reply_def)
  have a: "AddMessage demo_entity (stored_chat\<lparr>Chat.Messages := Chat.Messages stored_chat @ [hello]\<rparr>)
             (reply ''Hi there!'')
           = Inr (stored_chat\<lparr>Chat.Messages := Chat.Messages stored_chat @ [hello, reply ''Hi there!'']\<rparr>)"
    by (simp add: demo_defs reply_def hello_def)
  have s: "SaveChat (ChatGateway (use_case stored_gateway hi_there))
             (stored_chat\<lparr>Chat.Messages := Chat.Messages stored_chat @ [hello, reply ''Hi there!'']\<rparr>) = None"
    by (simp add: use_case_def stored_gateway_def)
  from C8_output_content [OF stored_open hi_there_deltas hi_there_EOF EOF_is_EOF m a s]
  show ?thesis by (simp add: stored_chat_def numeral_3_eq_3)
qed




text \<open>
  C10. When the chat is not found, whatever identifier the caller gives, the identifier
  has no influence: \<^verbatim>\<open>createNewChat\<close> gives the same result, and \<^verbatim>\<open>Execute\<close> has the same
  trace (created chat, request, snapshots, saved chat) and the same result. The entity
  functions are the same functions in both runs.
\<close>

theorem C10_ChatID_ignored:
  assumes "FindChatById (ChatGateway uc) (ChatCompletionInputDTO.ChatID input) = Inl err"
    and "Error err = ''Chat not found''"
    and "FindChatById (ChatGateway uc) other = Inl err'"
    and "Error err' = ''Chat not found''"
  shows "createNewChat ent (input\<lparr>ChatCompletionInputDTO.ChatID := other\<rparr>) = createNewChat ent input
       \<and> Execute ent uc (input\<lparr>ChatCompletionInputDTO.ChatID := other\<rparr>) = Execute ent uc input"
proof -
  have l: "Execute_load ent uc (input\<lparr>ChatCompletionInputDTO.ChatID := other\<rparr>) = Execute_load ent uc input"
    using assms by (simp add: Execute_load_def createNewChat_ChatID)
  have "Execute_open ent uc (input\<lparr>ChatCompletionInputDTO.ChatID := other\<rparr>) = Execute_open ent uc input"
    unfolding Execute_open_def l Execute_request_ChatID ..
  then show ?thesis
    by (simp add: Execute_def createNewChat_ChatID)
qed

theorem C10_ChatID_ignored_witness:
  "createNewChat demo_entity (demo_input\<lparr>ChatCompletionInputDTO.ChatID := ''c-99''\<rparr>) =
     createNewChat demo_entity demo_input
   \<and> Execute demo_entity (use_case empty_gateway hi_there)
        (demo_input\<lparr>ChatCompletionInputDTO.ChatID := ''c-99''\<rparr>) =
      Execute demo_entity (use_case empty_gateway hi_there) demo_input"
proof -
  have f: "FindChatById (ChatGateway (use_case empty_gateway hi_there))
             (ChatCompletionInputDTO.ChatID demo_input) = Inl not_found"
    by (simp add: use_case_def empty_gateway_def)
  have g: "FindChatById (ChatGateway (use_case empty_gateway hi_there)) ''c-99'' = Inl not_found"
    by (simp add: use_case_def empty_gateway_def)
  have t: "Error not_found = ''Chat not found''" by (simp add: not_found_def)
  from C10_ChatID_ignored [OF f t g t] show ?thesis .
qed

end
